theory Spec2Isabelle
  imports Complex_Main "HOL-Library.Word"
begin

unbundle bit_operations_syntax

section \<open>Values of the JavaScript runtime\<close>

text \<open>
  The client of \<^verbatim>\<open>client.ts\<close> works on three kinds of data: the bytes of the response
  body (\<^verbatim>\<open>Uint8Array\<close>), JavaScript strings (sequences of UTF-16 code units) and the
  untyped values that \<^verbatim>\<open>JSON.parse\<close> returns.
\<close>

type_synonym byte = "8 word"

type_synonym jsstring = "16 word list"

text \<open>A string literal of the source; the literals of the client are all ASCII.\<close>

definition js :: "string \<Rightarrow> jsstring" where
  "js s = map of_char s"

text \<open>
  A JavaScript number. The client never computes with numbers: it only tests
  \<^verbatim>\<open>typeof\<close>, \<^verbatim>\<open>Number.isFinite\<close> and converts. A finite double is therefore kept as the
  rational it denotes.
\<close>

datatype jsnumber = Finite rat | PosInfinity | NegInfinity | NaN

datatype json =
    JNull
  | JBool bool
  | JNum jsnumber
  | JStr jsstring
  | JArr "json list"
  | JObj "(jsstring \<times> json) list"

text \<open>
  A record is kept as the list of its own properties. A property read \<^verbatim>\<open>obj.key\<close> on a
  parsed record gives \<open>None\<close> for \<^verbatim>\<open>undefined\<close>; none of the keys the client reads is
  inherited from \<^verbatim>\<open>Object.prototype\<close>.
\<close>

definition getProp :: "(jsstring \<times> json) list \<Rightarrow> string \<Rightarrow> json option" where
  "getProp obj k = map_of obj (js k)"

text \<open>
  Three functions of the engine are taken as parameters: \<^verbatim>\<open>JSON.parse\<close> (\<open>None\<close> when it
  throws \<^verbatim>\<open>SyntaxError\<close>), the conversion of a string to a number and the conversion of a
  number to a string.
\<close>

record runtime =
  JSON_parse :: "jsstring \<Rightarrow> json option"
  StringToNumber :: "jsstring \<Rightarrow> jsnumber"
  NumberToString :: "jsnumber \<Rightarrow> jsstring"

text \<open>\<^verbatim>\<open>Array.prototype.join\<close> on strings.\<close>

fun join :: "jsstring \<Rightarrow> jsstring list \<Rightarrow> jsstring" where
  "join sep [] = []"
| "join sep [x] = x"
| "join sep (x # y # ys) = x @ sep @ join sep (y # ys)"

text \<open>
  The one exception the conversions of the engine raise on a parsed value.
\<close>

datatype error = TypeError

text \<open>
  \<^verbatim>\<open>String(v)\<close> on a JSON value. An array is the join of its elements with a comma,
  \<^verbatim>\<open>null\<close> elements being empty. A record is \<^verbatim>\<open>[object Object]\<close>, by the method it
  inherits, unless it has an own property \<^verbatim>\<open>toString\<close>: a parsed value is never
  callable, the inherited \<^verbatim>\<open>valueOf\<close> gives the record back, and the conversion raises
  \<^verbatim>\<open>TypeError\<close>. So does the conversion of an array that holds such a record.
\<close>

fun ToString :: "runtime \<Rightarrow> json \<Rightarrow> error + jsstring"
  and join_elements :: "runtime \<Rightarrow> json list \<Rightarrow> error + jsstring list" where
  "ToString rt JNull = Inr (js ''null'')"
| "ToString rt (JBool b) = Inr (if b then js ''true'' else js ''false'')"
| "ToString rt (JNum n) = Inr (NumberToString rt n)"
| "ToString rt (JStr s) = Inr s"
| "ToString rt (JArr xs) =
     (case join_elements rt xs of
        Inl e \<Rightarrow> Inl e
      | Inr ss \<Rightarrow> Inr (join (js '','') ss))"
| "ToString rt (JObj kvs) =
     (if getProp kvs ''toString'' \<noteq> None then Inl TypeError
      else Inr (js ''[object Object]''))"
| "join_elements rt [] = Inr []"
| "join_elements rt (x # xs) =
     (case (if x = JNull then Inr [] else ToString rt x) of
        Inl e \<Rightarrow> Inl e
      | Inr s \<Rightarrow>
          (case join_elements rt xs of
             Inl e \<Rightarrow> Inl e
           | Inr ss \<Rightarrow> Inr (s # ss)))"

text \<open>
  \<^verbatim>\<open>Number(v)\<close> on a JSON value: arrays and records go through their string, and raise
  where it raises.
\<close>

fun ToNumber :: "runtime \<Rightarrow> json \<Rightarrow> error + jsnumber" where
  "ToNumber rt JNull = Inr (Finite 0)"
| "ToNumber rt (JBool b) = Inr (if b then Finite 1 else Finite 0)"
| "ToNumber rt (JNum n) = Inr n"
| "ToNumber rt (JStr s) = Inr (StringToNumber rt s)"
| "ToNumber rt (JArr xs) =
     (case ToString rt (JArr xs) of Inl e \<Rightarrow> Inl e | Inr s \<Rightarrow> Inr (StringToNumber rt s))"
| "ToNumber rt (JObj kvs) =
     (case ToString rt (JObj kvs) of Inl e \<Rightarrow> Inl e | Inr s \<Rightarrow> Inr (StringToNumber rt s))"

fun isFinite :: "jsnumber \<Rightarrow> bool" where
  "isFinite (Finite q) = True"
| "isFinite PosInfinity = False"
| "isFinite NegInfinity = False"
| "isFinite NaN = False"

text \<open>
  The operator \<^verbatim>\<open>a ?? b\<close> on a property read: \<open>b\<close> when \<open>a\<close> is \<^verbatim>\<open>undefined\<close> or
  \<^verbatim>\<open>null\<close>.
\<close>

fun nullish :: "json option \<Rightarrow> bool" where
  "nullish None = True"
| "nullish (Some JNull) = True"
| "nullish (Some v) = False"

fun coalesce :: "json option \<Rightarrow> json \<Rightarrow> json" where
  "coalesce None b = b"
| "coalesce (Some JNull) b = b"
| "coalesce (Some v) b = v"

section \<open>Coercion of search results\<close>

record SearchResult =
  id' :: jsstring
  content' :: jsstring
  score :: jsnumber
  metadata :: "(jsstring \<times> json) list"
  documentId :: "jsstring option"
  collectionId :: "jsstring option"

text \<open>\<^verbatim>\<open>typeof v === 'string' ? v : undefined\<close>\<close>

fun string_or_undefined :: "json option \<Rightarrow> jsstring option" where
  "string_or_undefined (Some (JStr s)) = Some s"
| "string_or_undefined v = None"

text \<open>
  The coercion gives a result or raises: \<^verbatim>\<open>Number(scoreRaw ?? 0)\<close> is evaluated first, then
  \<^verbatim>\<open>String(raw.id ?? raw.chunk_id ?? '')\<close>, and nothing in the function catches.
\<close>

definition toSearchResult ::
    "runtime \<Rightarrow> (jsstring \<times> json) list \<Rightarrow> error + SearchResult" where
  "toSearchResult rt raw =
    (let scoreRaw = getProp raw ''score'' in
     case (case scoreRaw of
             Some (JNum n) \<Rightarrow> Inr n
           | _ \<Rightarrow> ToNumber rt (coalesce scoreRaw (JNum (Finite 0)))) of
       Inl e \<Rightarrow> Inl e
     | Inr parsedScore \<Rightarrow>
         (let metadata =
                (case getProp raw ''metadata'' of Some (JObj m) \<Rightarrow> m | _ \<Rightarrow> [])
          in case ToString rt
                    (coalesce (getProp raw ''id'')
                       (coalesce (getProp raw ''chunk_id'') (JStr []))) of
               Inl e \<Rightarrow> Inl e
             | Inr ident \<Rightarrow>
                 Inr \<lparr> id' = ident,
                       content' =
                         (case string_or_undefined (getProp raw ''text'') of
                            Some s \<Rightarrow> s
                          | None \<Rightarrow>
                              (case getProp raw ''content'' of
                                 Some (JStr s) \<Rightarrow> s | _ \<Rightarrow> [])),
                       score = (if isFinite parsedScore then parsedScore else Finite 0),
                       metadata = metadata,
                       documentId = string_or_undefined (getProp raw ''document_id''),
                       collectionId = string_or_undefined (getProp raw ''collection_id'') \<rparr>))"

text \<open>
  The loop of \<^verbatim>\<open>mapSearchResults\<close>: entries that are not records are passed over, and an
  exception of the coercion leaves the loop.
\<close>

fun mapSearchResults_loop :: "runtime \<Rightarrow> json list \<Rightarrow> error + SearchResult list" where
  "mapSearchResults_loop rt [] = Inr []"
| "mapSearchResults_loop rt (JObj raw # rest) =
     (case toSearchResult rt raw of
        Inl e \<Rightarrow> Inl e
      | Inr r \<Rightarrow>
          (case mapSearchResults_loop rt rest of
             Inl e \<Rightarrow> Inl e
           | Inr rs \<Rightarrow> Inr (r # rs)))"
| "mapSearchResults_loop rt (v # rest) = mapSearchResults_loop rt rest"

fun mapSearchResults :: "runtime \<Rightarrow> json option \<Rightarrow> error + SearchResult list" where
  "mapSearchResults rt (Some (JArr rawResults)) = mapSearchResults_loop rt rawResults"
| "mapSearchResults rt v = Inr []"

definition extractChatSources ::
    "runtime \<Rightarrow> (jsstring \<times> json) list \<Rightarrow> error + SearchResult list" where
  "extractChatSources rt payload =
    (case getProp payload ''ragora_stats'' of
       Some (JObj ragoraStats) \<Rightarrow>
         (case getProp ragoraStats ''sources'' of
            Some (JArr xs) \<Rightarrow> mapSearchResults rt (getProp ragoraStats ''sources'')
          | _ \<Rightarrow> mapSearchResults rt (getProp payload ''sources''))
     | _ \<Rightarrow> mapSearchResults rt (getProp payload ''sources''))"

section \<open>The event interpreter\<close>

record ChatStreamChunk =
  content :: jsstring
  finishReason :: "jsstring option"
  sources :: "SearchResult list"

text \<open>
  The result of \<^verbatim>\<open>parseEvent\<close>, \<^verbatim>\<open>{ chunk?, done }\<close>. The type of the chunk is left open
  so that the framing loop below can be run with an interpreter that records the frames
  it is handed.
\<close>

record 'c parse_result =
  chunk :: "'c option"
  done' :: bool

definition nothing :: "'c parse_result" where
  "nothing = \<lparr> chunk = None, done' = False \<rparr>"

text \<open>
  The body of \<^verbatim>\<open>parseEvent\<close> after the sentinel test is a \<^verbatim>\<open>try\<close> whose \<^verbatim>\<open>catch\<close> returns
  \<^verbatim>\<open>{ done: false }\<close>: it takes the \<^verbatim>\<open>SyntaxError\<close> of \<^verbatim>\<open>JSON.parse\<close> and the
  \<^verbatim>\<open>TypeError\<close> that the coercion of a source may raise.
\<close>

definition parseEvent ::
    "runtime \<Rightarrow> jsstring \<Rightarrow> jsstring list \<Rightarrow> ChatStreamChunk parse_result" where
  "parseEvent rt currentEvent currentDataLines =
    (if currentDataLines = [] then nothing
     else
       let dataStr = join (js [CHR 0x0A]) currentDataLines in
       if dataStr = js ''[DONE]'' then \<lparr> chunk = None, done' = True \<rparr>
       else
         (case JSON_parse rt dataStr of
            None \<Rightarrow> nothing
          | Some (JObj parsed) \<Rightarrow>
              if currentEvent = js ''ragora_metadata'' \<or> currentEvent = js ''ragora_complete''
              then
                (case extractChatSources rt parsed of
                   Inl e \<Rightarrow> nothing
                 | Inr srcs \<Rightarrow>
                     if srcs = [] then nothing
                     else \<lparr> chunk = Some \<lparr> content = [], finishReason = None,
                                            sources = srcs \<rparr>,
                            done' = False \<rparr>)
              else
                (let choices =
                       (case getProp parsed ''choices'' of Some (JArr cs) \<Rightarrow> cs | _ \<Rightarrow> []);
                     firstChoice = (case choices of JObj c # _ \<Rightarrow> c | _ \<Rightarrow> []);
                     delta =
                       (case getProp firstChoice ''delta'' of Some (JObj d) \<Rightarrow> d | _ \<Rightarrow> []);
                     content =
                       (case getProp delta ''content'' of Some (JStr s) \<Rightarrow> s | _ \<Rightarrow> []);
                     finishReason = string_or_undefined (getProp firstChoice ''finish_reason'')
                 in case extractChatSources rt parsed of
                      Inl e \<Rightarrow> nothing
                    | Inr srcs \<Rightarrow>
                        if content = [] \<and> (finishReason = None \<or> finishReason = Some [])
                           \<and> srcs = []
                        then nothing
                        else \<lparr> chunk = Some \<lparr> content = content, finishReason = finishReason,
                                               sources = srcs \<rparr>,
                               done' = False \<rparr>)
          | Some v \<Rightarrow> nothing))"

section \<open>Strings and the text decoder\<close>

text \<open>
  The characters that \<^verbatim>\<open>trim\<close>, \<^verbatim>\<open>trimStart\<close> and \<^verbatim>\<open>trimEnd\<close> remove: the white space
  and the line terminators of ECMAScript.
\<close>

definition isWhiteSpace :: "16 word \<Rightarrow> bool" where
  "isWhiteSpace c \<longleftrightarrow>
     c = 0x09 \<or> c = 0x0A \<or> c = 0x0B \<or> c = 0x0C \<or> c = 0x0D \<or> c = 0x20 \<or> c = 0xA0
     \<or> c = 0x1680 \<or> (0x2000 \<le> c \<and> c \<le> 0x200A) \<or> c = 0x2028 \<or> c = 0x2029
     \<or> c = 0x202F \<or> c = 0x205F \<or> c = 0x3000 \<or> c = 0xFEFF"

definition trimStart :: "jsstring \<Rightarrow> jsstring" where
  "trimStart s = dropWhile isWhiteSpace s"

definition trimEnd :: "jsstring \<Rightarrow> jsstring" where
  "trimEnd s = rev (dropWhile isWhiteSpace (rev s))"

definition trim :: "jsstring \<Rightarrow> jsstring" where
  "trim s = trimEnd (trimStart s)"

definition startsWith :: "jsstring \<Rightarrow> jsstring \<Rightarrow> bool" where
  "startsWith s p \<longleftrightarrow> take (length p) s = p"

text \<open>\<^verbatim>\<open>s.slice(n)\<close> for \<open>n \<ge> 0\<close>.\<close>

definition slice :: "nat \<Rightarrow> jsstring \<Rightarrow> jsstring" where
  "slice n s = drop n s"

text \<open>\<^verbatim>\<open>s.split(sep)\<close> for a separator of one code unit; the result is never empty.\<close>

fun split :: "16 word \<Rightarrow> jsstring \<Rightarrow> jsstring list" where
  "split sep [] = [[]]"
| "split sep (c # cs) =
     (if c = sep then [] # split sep cs
      else (case split sep cs of l # ls \<Rightarrow> (c # l) # ls | [] \<Rightarrow> [[c]]))"

text \<open>
  \<^verbatim>\<open>TextDecoder\<close> is the UTF-8 decoder of the Encoding Standard, in replacement mode. Its
  state is the code point under construction, the bytes seen and needed and the two
  boundaries of the next continuation byte, and whether the byte order mark has been
  passed. One byte gives no, one or two code points: two when a byte that cannot
  continue the sequence is taken again as the first byte of the next one.
\<close>

record utf8_decoder =
  code_point :: nat
  bytes_seen :: nat
  bytes_needed :: nat
  lower_boundary :: byte
  upper_boundary :: byte

definition utf8_init :: utf8_decoder where
  "utf8_init = \<lparr> code_point = 0, bytes_seen = 0, bytes_needed = 0,
                 lower_boundary = 0x80, upper_boundary = 0xBF \<rparr>"

definition utf8_first :: "byte \<Rightarrow> utf8_decoder \<times> nat list" where
  "utf8_first b =
    (if b \<le> 0x7F then (utf8_init, [unat b])
     else if 0xC2 \<le> b \<and> b \<le> 0xDF then
       (utf8_init \<lparr> bytes_needed := 1, code_point := unat (b AND 0x1F) \<rparr>, [])
     else if 0xE0 \<le> b \<and> b \<le> 0xEF then
       (utf8_init \<lparr> lower_boundary := (if b = 0xE0 then 0xA0 else 0x80),
                    upper_boundary := (if b = 0xED then 0x9F else 0xBF),
                    bytes_needed := 2, code_point := unat (b AND 0x0F) \<rparr>, [])
     else if 0xF0 \<le> b \<and> b \<le> 0xF4 then
       (utf8_init \<lparr> lower_boundary := (if b = 0xF0 then 0x90 else 0x80),
                    upper_boundary := (if b = 0xF4 then 0x8F else 0xBF),
                    bytes_needed := 3, code_point := unat (b AND 0x07) \<rparr>, [])
     else (utf8_init, [0xFFFD]))"

definition utf8_handler :: "utf8_decoder \<Rightarrow> byte \<Rightarrow> utf8_decoder \<times> nat list" where
  "utf8_handler d b =
    (if bytes_needed d = 0 then utf8_first b
     else if b < lower_boundary d \<or> upper_boundary d < b then
       (case utf8_first b of (d', out) \<Rightarrow> (d', 0xFFFD # out))
     else
       let cp = code_point d * 64 + unat (b AND 0x3F);
           seen = bytes_seen d + 1
       in if seen \<noteq> bytes_needed d then
            (d \<lparr> lower_boundary := 0x80, upper_boundary := 0xBF,
                 code_point := cp, bytes_seen := seen \<rparr>, [])
          else (utf8_init, [cp]))"

text \<open>A code point as UTF-16 code units.\<close>

definition code_units :: "nat \<Rightarrow> jsstring" where
  "code_units cp =
    (if cp < 0x10000 then [of_nat cp]
     else [of_nat (0xD800 + (cp - 0x10000) div 0x400),
           of_nat (0xDC00 + (cp - 0x10000) mod 0x400)])"

record TextDecoder =
  utf8 :: utf8_decoder
  BOM_seen :: bool

definition new_TextDecoder :: TextDecoder where
  "new_TextDecoder = \<lparr> utf8 = utf8_init, BOM_seen = False \<rparr>"

text \<open>Serialising the code points: the first one of the stream is dropped when it is U+FEFF.\<close>

fun serialize :: "bool \<Rightarrow> nat list \<Rightarrow> bool \<times> jsstring" where
  "serialize seen [] = (seen, [])"
| "serialize seen (cp # cps) =
     (if \<not> seen \<and> cp = 0xFEFF then serialize True cps
      else (case serialize True cps of (seen', out) \<Rightarrow> (seen', code_units cp @ out)))"

text \<open>
  \<^verbatim>\<open>decoder.decode(value, { stream: true })\<close>: the bytes of \<open>value\<close> go through the
  decoder, whose state is kept for the next call; nothing is flushed.
\<close>

fun decode :: "TextDecoder \<Rightarrow> byte list \<Rightarrow> TextDecoder \<times> jsstring" where
  "decode dec [] = (dec, [])"
| "decode dec (b # bs) =
     (case utf8_handler (utf8 dec) b of (d, cps) \<Rightarrow>
        (case serialize (BOM_seen dec) cps of (seen, out) \<Rightarrow>
           (case decode \<lparr> utf8 = d, BOM_seen = seen \<rparr> bs of (dec', out') \<Rightarrow>
              (dec', out @ out'))))"

section \<open>The framing loop of chatStream\<close>

record stream_state =
  decoder :: TextDecoder
  buffer :: jsstring
  eventName :: jsstring
  dataLines :: "jsstring list"

definition initial_state :: stream_state where
  "initial_state = \<lparr> decoder = new_TextDecoder, buffer = [],
                     eventName = js ''message'', dataLines = [] \<rparr>"

text \<open>\<^verbatim>\<open>s || 'message'\<close>\<close>

definition or_message :: "jsstring \<Rightarrow> jsstring" where
  "or_message s = (if s = [] then js ''message'' else s)"

text \<open>\<^verbatim>\<open>if (parsed.chunk) yield parsed.chunk\<close>\<close>

definition yield :: "'c parse_result \<Rightarrow> 'c list" where
  "yield parsed = (case chunk parsed of Some c \<Rightarrow> [c] | None \<Rightarrow> [])"

text \<open>
  The \<^verbatim>\<open>for\<close> loop over the complete lines of one read. It gives the chunks yielded and
  the state after the last line, or \<open>None\<close> when the generator has returned.
\<close>

fun for_lines ::
    "(jsstring \<Rightarrow> jsstring list \<Rightarrow> 'c parse_result) \<Rightarrow> stream_state \<Rightarrow> jsstring list
      \<Rightarrow> 'c list \<times> stream_state option" where
  "for_lines parseEv st [] = ([], Some st)"
| "for_lines parseEv st (rawLine # rest) =
    (let line = trimEnd rawLine in
     if line = [] then
       (let parsed = parseEv (eventName st) (dataLines st);
            st' = st \<lparr> dataLines := [], eventName := js ''message'' \<rparr>
        in if done' parsed then (yield parsed, None)
           else (case for_lines parseEv st' rest of (ys, r) \<Rightarrow> (yield parsed @ ys, r)))
     else if startsWith line (js ''event:'') then
       for_lines parseEv (st \<lparr> eventName := or_message (trim (slice 6 line)) \<rparr>) rest
     else if startsWith line (js ''data:'') then
       for_lines parseEv (st \<lparr> dataLines := dataLines st @ [trimStart (slice 5 line)] \<rparr>) rest
     else for_lines parseEv st rest)"

text \<open>The branch taken when the reader reports the end of the body.\<close>

definition end_of_stream ::
    "(jsstring \<Rightarrow> jsstring list \<Rightarrow> 'c parse_result) \<Rightarrow> stream_state \<Rightarrow> 'c list" where
  "end_of_stream parseEv st =
    (let tail = trimEnd (buffer st);
         st' =
           (if startsWith tail (js ''event:'') then
              st \<lparr> eventName := or_message (trim (slice 6 tail)) \<rparr>
            else if startsWith tail (js ''data:'') then
              st \<lparr> dataLines := dataLines st @ [trimStart (slice 5 tail)] \<rparr>
            else st)
     in yield (parseEv (eventName st') (dataLines st')))"

text \<open>
  The body of the \<^verbatim>\<open>while (true)\<close> loop for a read that brings \<open>value\<close>: decode, append
  to the buffer, split, keep the last element as the new buffer and run the loop over the
  other lines.
\<close>

definition on_read ::
    "(jsstring \<Rightarrow> jsstring list \<Rightarrow> 'c parse_result) \<Rightarrow> stream_state \<Rightarrow> byte list
      \<Rightarrow> 'c list \<times> stream_state option" where
  "on_read parseEv st value =
    (case decode (decoder st) value of (dec, text) \<Rightarrow>
       (let lines = split 0x0A (buffer st @ text);
            st1 = st \<lparr> decoder := dec, buffer := last lines \<rparr>
        in for_lines parseEv st1 (butlast lines)))"

text \<open>
  The \<^verbatim>\<open>while (true)\<close> loop over the reads of the body: the list holds the values of the
  successive \<^verbatim>\<open>reader.read()\<close> calls, and its end is the read that reports \<^verbatim>\<open>done\<close>.
\<close>

fun chatStream_loop ::
    "(jsstring \<Rightarrow> jsstring list \<Rightarrow> 'c parse_result) \<Rightarrow> stream_state \<Rightarrow> byte list list
      \<Rightarrow> 'c list" where
  "chatStream_loop parseEv st [] = end_of_stream parseEv st"
| "chatStream_loop parseEv st (value # reads) =
    (case on_read parseEv st value of
       (ys, None) \<Rightarrow> ys
     | (ys, Some st2) \<Rightarrow> ys @ chatStream_loop parseEv st2 reads)"

text \<open>
  The chunks that \<^verbatim>\<open>chatStream\<close> yields on a response body read as \<open>reads\<close>. The request,
  the check of the status and the acquisition of the reader come before the loop and are
  not modelled.
\<close>

definition chatStream :: "runtime \<Rightarrow> byte list list \<Rightarrow> ChatStreamChunk list" where
  "chatStream rt reads = chatStream_loop (parseEvent rt) initial_state reads"

text \<open>
  The frames that the loop hands to the interpreter: the same loop, run with an
  interpreter that reports its two arguments and stops where \<^verbatim>\<open>parseEvent\<close> stops.
\<close>

definition record_frame ::
    "runtime \<Rightarrow> jsstring \<Rightarrow> jsstring list \<Rightarrow> (jsstring \<times> jsstring list) parse_result" where
  "record_frame rt ev ds = \<lparr> chunk = Some (ev, ds), done' = done' (parseEvent rt ev ds) \<rparr>"

definition frames :: "runtime \<Rightarrow> byte list list \<Rightarrow> (jsstring \<times> jsstring list) list" where
  "frames rt reads = chatStream_loop (record_frame rt) initial_state reads"

section \<open>Notions used to state the properties\<close>

text \<open>
  A path into a parsed value, as the specification writes it
  (\<^verbatim>\<open>choices[0].delta.content\<close>): a key is read on a record only and an index on an
  array only, and anything else on the way is \<^verbatim>\<open>undefined\<close>.
\<close>

datatype path_step = Key string | Index nat

fun at_path :: "json option \<Rightarrow> path_step list \<Rightarrow> json option" where
  "at_path v [] = v"
| "at_path (Some (JObj kvs)) (Key k # p) = at_path (getProp kvs k) p"
| "at_path (Some (JArr xs)) (Index i # p) =
     at_path (if i < length xs then Some (xs ! i) else None) p"
| "at_path v (s # p) = None"

text \<open>
  What every \<^verbatim>\<open>JSON.parse\<close> does on two texts that are not JSON: the empty string and
  the sentinel.
\<close>

definition conforming :: "runtime \<Rightarrow> bool" where
  "conforming rt \<longleftrightarrow> JSON_parse rt [] = None \<and> JSON_parse rt (js ''[DONE]'') = None"

text \<open>The records among the entries of a list.\<close>

fun records :: "json list \<Rightarrow> (jsstring \<times> json) list list" where
  "records [] = []"
| "records (JObj raw # rest) = raw # records rest"
| "records (v # rest) = records rest"

text \<open>
  The values on which \<^verbatim>\<open>String\<close> and \<^verbatim>\<open>Number\<close> do not raise: no record with an own
  property \<^verbatim>\<open>toString\<close>, at the top or in an array.
\<close>

fun convertible :: "json \<Rightarrow> bool" where
  "convertible (JArr xs) = list_all convertible xs"
| "convertible (JObj kvs) = (getProp kvs ''toString'' = None)"
| "convertible v = True"

text \<open>
  The records on which none of the two conversions of the coercion raises: that of the
  score and that of the identifier.
\<close>

definition coercible :: "(jsstring \<times> json) list \<Rightarrow> bool" where
  "coercible raw \<longleftrightarrow>
     convertible (coalesce (getProp raw ''score'') (JNum (Finite 0)))
     \<and> convertible (coalesce (getProp raw ''id'')
                      (coalesce (getProp raw ''chunk_id'') (JStr [])))"

text \<open>
  The list the sources of a payload are taken from: \<^verbatim>\<open>ragora_stats.sources\<close> when that
  is a list, else the top-level \<^verbatim>\<open>sources\<close> when that is a list, else none.
\<close>

definition chosen_sources :: "(jsstring \<times> json) list \<Rightarrow> json list" where
  "chosen_sources payload =
    (case at_path (Some (JObj payload)) [Key ''ragora_stats'', Key ''sources''] of
       Some (JArr xs) \<Rightarrow> xs
     | _ \<Rightarrow>
         (case at_path (Some (JObj payload)) [Key ''sources''] of
            Some (JArr xs) \<Rightarrow> xs
          | _ \<Rightarrow> []))"

text \<open>
  The classification of a line as the specification gives it: a blank line ends the
  frame, \<^verbatim>\<open>event:\<close> names it, \<^verbatim>\<open>data:\<close> adds a data line, anything else is ignored.
\<close>

datatype line_class = Blank | EventLine jsstring | DataLine jsstring | Ignored

definition classify :: "jsstring \<Rightarrow> line_class" where
  "classify line =
    (if line = [] then Blank
     else if startsWith line (js ''event:'') then EventLine (or_message (trim (slice 6 line)))
     else if startsWith line (js ''data:'') then DataLine (trimStart (slice 5 line))
     else Ignored)"

text \<open>A finite table with a default.\<close>

definition map_of_default :: "'b \<Rightarrow> ('a \<times> 'b) list \<Rightarrow> 'a \<Rightarrow> 'b" where
  "map_of_default d kvs k = (case map_of kvs k of Some v \<Rightarrow> v | None \<Rightarrow> d)"

text \<open>The trimming of a line as the specification words it: trailing carriage returns only.\<close>

definition strip_trailing_cr :: "jsstring \<Rightarrow> jsstring" where
  "strip_trailing_cr s = rev (dropWhile (\<lambda>c. c = 0x0D) (rev s))"

text \<open>The bytes of an ASCII text.\<close>

definition bytes :: "string \<Rightarrow> byte list" where
  "bytes s = map of_char s"

text \<open>
  A runtime for the closed examples below. The three functions are tabulated on the
  texts and numbers that the examples use, with the values an ECMAScript engine gives
  there; elsewhere the parser rejects, the string is not a number and the number has no
  digits.
\<close>

definition sample_runtime :: runtime where
  \<open>sample_runtime =
    \<lparr> JSON_parse = map_of
        [(js ''{"sources":[{"id":"a","content":"x","score":0.9}]}'',
          JObj [(js ''sources'',
                 JArr [JObj [(js ''id'', JStr (js ''a'')), (js ''content'', JStr (js ''x'')),
                             (js ''score'', JNum (Finite (9 / 10)))]])]),
         (js ''{"choices":[{"delta":{"content":"Hi"}}]}'',
          JObj [(js ''choices'',
                 JArr [JObj [(js ''delta'', JObj [(js ''content'', JStr (js ''Hi''))])]])]),
         (js ''{"choices":[{"finish_reason":""}]}'',
          JObj [(js ''choices'', JArr [JObj [(js ''finish_reason'', JStr [])]])]),
         (js ''{"sources":[{"id":{"toString":1}}]}'',
          JObj [(js ''sources'',
                 JArr [JObj [(js ''id'', JObj [(js ''toString'', JNum (Finite 1))])]])]),
         (js ''{"choices":[{"delta":{"content":"Hi"}}],"sources":[{"score":{"toString":1}}]}'',
          JObj [(js ''choices'',
                 JArr [JObj [(js ''delta'', JObj [(js ''content'', JStr (js ''Hi''))])]]),
                (js ''sources'',
                 JArr [JObj [(js ''score'', JObj [(js ''toString'', JNum (Finite 1))])]])])],
      StringToNumber = map_of_default NaN [(js ''0.5'', Finite (1 / 2))],
      NumberToString = map_of_default [] [(Finite 7, js ''7'')] \<rparr>\<close>

section \<open>The request timer\<close>

text \<open>
  \<^verbatim>\<open>chatStream\<close> arms one timer before the request,
  \<^verbatim>\<open>setTimeout(() => controller.abort(), this.timeout)\<close>, and clears it in its
  \<^verbatim>\<open>finally\<close> block; the loop over the reads does not touch it. Time is counted in
  milliseconds from the call of \<^verbatim>\<open>setTimeout\<close>: each read carries the time at which
  it resolves. A read that has not resolved when the timer fires is rejected with
  \<^verbatim>\<open>AbortError\<close>.
\<close>

datatype 'c outcome = Completed "'c list" | AbortError "'c list"

fun after_chunks :: "'c list \<Rightarrow> 'c outcome \<Rightarrow> 'c outcome" where
  "after_chunks ys (Completed zs) = Completed (ys @ zs)"
| "after_chunks ys (AbortError zs) = AbortError (ys @ zs)"

fun timed_loop ::
    "(jsstring \<Rightarrow> jsstring list \<Rightarrow> 'c parse_result) \<Rightarrow> nat \<Rightarrow> stream_state
      \<Rightarrow> (nat \<times> byte list) list \<Rightarrow> nat \<Rightarrow> 'c outcome" where
  "timed_loop parseEv deadline st [] t_end =
     (if deadline \<le> t_end then AbortError [] else Completed (end_of_stream parseEv st))"
| "timed_loop parseEv deadline st ((t, value) # reads) t_end =
     (if deadline \<le> t then AbortError []
      else (case on_read parseEv st value of
              (ys, None) \<Rightarrow> Completed ys
            | (ys, Some st2) \<Rightarrow> after_chunks ys (timed_loop parseEv deadline st2 reads t_end)))"

definition chatStream_timed ::
    "runtime \<Rightarrow> nat \<Rightarrow> (nat \<times> byte list) list \<Rightarrow> nat \<Rightarrow> ChatStreamChunk outcome" where
  "chatStream_timed rt timeout reads t_end =
     timed_loop (parseEvent rt) timeout initial_state reads t_end"

section \<open>Evaluating the model on concrete inputs\<close>

lemmas eval_defs =
  js_def bytes_def getProp_def sample_runtime_def map_of_default_def toSearchResult_def
  extractChatSources_def parseEvent_def nothing_def Let_def

lemmas stream_defs =
  chatStream_def on_read_def end_of_stream_def initial_state_def
  new_TextDecoder_def utf8_init_def utf8_handler_def utf8_first_def code_units_def
  trimEnd_def trimStart_def trim_def startsWith_def slice_def isWhiteSpace_def
  or_message_def yield_def

section \<open>Split invariance of the framer\<close>

lemma decode_append:
  "decode dec (xs @ ys) =
     (case decode dec xs of (d1, o1) \<Rightarrow>
        (case decode d1 ys of (d2, o2) \<Rightarrow> (d2, o1 @ o2)))"
  by (induction xs arbitrary: dec) (auto split: prod.splits)

lemma split_not_Nil: "split sep s \<noteq> []"
  by (induction s) (auto split: list.splits)

lemma split_append:
  "split sep (x @ y) = butlast (split sep x) @ split sep (last (split sep x) @ y)"
proof (induction x)
  case Nil
  show ?case by simp
next
  case (Cons c cs)
  show ?case
  proof (cases "c = sep")
    case True
    then show ?thesis using Cons split_not_Nil[of sep cs] by simp
  next
    case False
    obtain l ls where sp: "split sep cs = l # ls"
      using split_not_Nil[of sep cs] by (cases "split sep cs") auto
    show ?thesis
    proof (cases ls)
      case Nil
      then show ?thesis using False sp Cons by simp
    next
      case (Cons a as)
      then show ?thesis using False sp Cons.IH by simp
    qed
  qed
qed

lemma for_lines_append:
  "for_lines f st (l1 @ l2) =
     (case for_lines f st l1 of
        (ys, None) \<Rightarrow> (ys, None)
      | (ys, Some st') \<Rightarrow> (case for_lines f st' l2 of (zs, r) \<Rightarrow> (ys @ zs, r)))"
  by (induction l1 arbitrary: st) (auto simp: Let_def split: prod.splits option.splits)

lemma for_lines_frame:
  "eventName st = eventName st2 \<Longrightarrow> dataLines st = dataLines st2 \<Longrightarrow>
   for_lines f st ls =
     (case for_lines f st2 ls of (ys, r) \<Rightarrow>
        (ys, map_option (\<lambda>s. s \<lparr> decoder := decoder st, buffer := buffer st \<rparr>) r))"
proof (induction ls arbitrary: st st2)
  case Nil
  then show ?case by simp
next
  case (Cons rawLine rest)
  let ?line = "trimEnd rawLine"
  have a: "for_lines f (st \<lparr> dataLines := [], eventName := js ''message'' \<rparr>) rest =
     (case for_lines f (st2 \<lparr> dataLines := [], eventName := js ''message'' \<rparr>) rest of (ys, r) \<Rightarrow>
        (ys, map_option (\<lambda>s. s \<lparr> decoder := decoder st, buffer := buffer st \<rparr>) r))"
    using Cons.IH[of "st \<lparr> dataLines := [], eventName := js ''message'' \<rparr>"
                     "st2 \<lparr> dataLines := [], eventName := js ''message'' \<rparr>"] by simp
  have b: "for_lines f (st \<lparr> eventName := e \<rparr>) rest =
     (case for_lines f (st2 \<lparr> eventName := e \<rparr>) rest of (ys, r) \<Rightarrow>
        (ys, map_option (\<lambda>s. s \<lparr> decoder := decoder st, buffer := buffer st \<rparr>) r))" for e
    using Cons.IH[of "st \<lparr> eventName := e \<rparr>" "st2 \<lparr> eventName := e \<rparr>"] Cons.prems by simp
  have c: "for_lines f (st \<lparr> dataLines := e \<rparr>) rest =
     (case for_lines f (st2 \<lparr> dataLines := e \<rparr>) rest of (ys, r) \<Rightarrow>
        (ys, map_option (\<lambda>s. s \<lparr> decoder := decoder st, buffer := buffer st \<rparr>) r))" for e
    using Cons.IH[of "st \<lparr> dataLines := e \<rparr>" "st2 \<lparr> dataLines := e \<rparr>"] Cons.prems by simp
  have d: "for_lines f st rest =
     (case for_lines f st2 rest of (ys, r) \<Rightarrow>
        (ys, map_option (\<lambda>s. s \<lparr> decoder := decoder st, buffer := buffer st \<rparr>) r))"
    using Cons.IH[of st st2] Cons.prems by simp
  show ?case
    using Cons.prems by (simp add: Let_def a b c d split: prod.splits)
qed


lemma for_lines_keeps:
  assumes "for_lines f st ls = (ys, Some st')"
  shows "decoder st' = decoder st \<and> buffer st' = buffer st"
proof -
  have "st' = st' \<lparr> decoder := decoder st, buffer := buffer st \<rparr>"
    using for_lines_frame[of st st f ls] assms by simp
  then have "decoder st' = decoder (st' \<lparr> decoder := decoder st, buffer := buffer st \<rparr>)"
    and "buffer st' = buffer (st' \<lparr> decoder := decoder st, buffer := buffer st \<rparr>)"
    by simp_all
  then show ?thesis by simp
qed

lemma butlast_split_append:
  "butlast (split sep (x @ y)) =
     butlast (split sep x) @ butlast (split sep (last (split sep x) @ y))"
  by (subst split_append) (simp add: butlast_append split_not_Nil)

lemma last_split_append:
  "last (split sep (x @ y)) = last (split sep (last (split sep x) @ y))"
  by (subst split_append) (simp add: split_not_Nil)

lemma on_read_append:
  "on_read f st (v1 @ v2) =
     (case on_read f st v1 of
        (ys, None) \<Rightarrow> (ys, None)
      | (ys, Some st1) \<Rightarrow> (case on_read f st1 v2 of (zs, r) \<Rightarrow> (ys @ zs, r)))"
proof -
  obtain d1 t1 where dec1: "decode (decoder st) v1 = (d1, t1)" by (cases "decode (decoder st) v1")
  obtain d2 t2 where dec2: "decode d1 v2 = (d2, t2)" by (cases "decode d1 v2")
  let ?L1 = "split 0x0A (buffer st @ t1)"
  let ?b1 = "last ?L1"
  let ?L2 = "split 0x0A (?b1 @ t2)"
  let ?sa = "st \<lparr> decoder := d1, buffer := ?b1 \<rparr>"
  let ?sb = "st \<lparr> decoder := d2, buffer := last ?L2 \<rparr>"
  obtain ys r where run1: "for_lines f ?sa (butlast ?L1) = (ys, r)"
    by (cases "for_lines f ?sa (butlast ?L1)")
  have first: "on_read f st v1 = (ys, r)"
    using dec1 run1 by (simp add: on_read_def Let_def)
  have whole: "on_read f st (v1 @ v2) = for_lines f ?sb (butlast ?L1 @ butlast ?L2)"
    using dec1 dec2
    by (simp add: on_read_def decode_append Let_def
          butlast_split_append[of _ "buffer st @ t1" t2, simplified]
          last_split_append[of _ "buffer st @ t1" t2, simplified])
  have moved: "for_lines f ?sb (butlast ?L1) =
      (ys, map_option (\<lambda>s. s \<lparr> decoder := d2, buffer := last ?L2 \<rparr>) r)"
    using for_lines_frame[of ?sb ?sa f "butlast ?L1"] run1 by simp
  show ?thesis
  proof (cases r)
    case None
    then show ?thesis using whole moved first by (simp add: for_lines_append)
  next
    case (Some st1)
    have keep: "decoder st1 = d1 \<and> buffer st1 = ?b1"
      using for_lines_keeps[of f ?sa "butlast ?L1" ys st1] run1 Some by simp
    have second: "on_read f st1 v2 =
        for_lines f (st1 \<lparr> decoder := d2, buffer := last ?L2 \<rparr>) (butlast ?L2)"
      using keep dec2 by (simp add: on_read_def Let_def)
    show ?thesis using whole moved first second Some
      by (simp add: for_lines_append split: prod.splits)
  qed
qed

lemma chatStream_loop_merge:
  "chatStream_loop f st (v1 # v2 # reads) = chatStream_loop f st ((v1 @ v2) # reads)"
  by (simp add: on_read_append split: prod.splits option.splits)

lemma chatStream_loop_concat:
  "chatStream_loop f st (v # reads) = chatStream_loop f st [concat (v # reads)]"
proof (induction reads arbitrary: v)
  case Nil
  show ?case by simp
next
  case (Cons w reads)
  have "chatStream_loop f st (v # w # reads) = chatStream_loop f st ((v @ w) # reads)"
    by (rule chatStream_loop_merge)
  also have "\<dots> = chatStream_loop f st [concat ((v @ w) # reads)]"
    by (rule Cons.IH)
  finally show ?case by simp
qed

lemma chatStream_loop_no_read:
  "chatStream_loop f initial_state [] = chatStream_loop f initial_state [[]]"
  by (simp add: on_read_def initial_state_def)

lemma chatStream_loop_split_invariant:
  "chatStream_loop f initial_state reads = chatStream_loop f initial_state [concat reads]"
proof (cases reads)
  case Nil
  then show ?thesis using chatStream_loop_no_read[of f] by simp
next
  case (Cons v vs)
  then show ?thesis using chatStream_loop_concat[of f initial_state v vs] by simp
qed

text \<open>
  C1. Split invariance of the framer: however the bytes of the body are cut into
  successive reads (inside a multi-byte character, with empty reads, with no read
  before the end), \<open>chatStream\<close> hands the same frames, with the same event names and
  data lines, to the interpreter and so yields the same chunks as when all the bytes come
  in one read. It holds for every byte sequence, well-formed or not.
\<close>

theorem split_invariance:
  "chatStream rt reads = chatStream rt [concat reads]
   \<and> frames rt reads = frames rt [concat reads]"
  unfolding chatStream_def frames_def
  using chatStream_loop_split_invariant[of "parseEvent rt" reads]
        chatStream_loop_split_invariant[of "record_frame rt" reads]
  by simp

text \<open>
  A frame whose payload is the two bytes of U+00E9, cut between them, with an empty read
  on the way. The last entry is the call of the interpreter at the end of the body.
\<close>

theorem split_invariance_witness:
  \<open>frames sample_runtime [bytes ''data: '' @ [0xC3], [0xA9, 0x0A], [], [0x0A]]
     = [(js ''message'', [[0xE9]]), (js ''message'', [])]
   \<and> frames sample_runtime [bytes ''data: '' @ [0xC3, 0xA9, 0x0A, 0x0A]]
     = [(js ''message'', [[0xE9]]), (js ''message'', [])]\<close>
  using split_invariance[of sample_runtime \<open>[bytes ''data: '' @ [0xC3], [0xA9, 0x0A], [], [0x0A]]\<close>]
  by (simp add: frames_def record_frame_def stream_defs eval_defs)

section \<open>Where the conversions raise\<close>

lemma error_is_TypeError: "e = TypeError"
  by (cases e) simp

lemma coalesce_nullish: "nullish a \<Longrightarrow> coalesce a b = b"
  by (cases a rule: nullish.cases) simp_all

lemma coalesce_present: "a = Some v \<Longrightarrow> v \<noteq> JNull \<Longrightarrow> coalesce a b = v"
  by (cases v) simp_all

lemma ToString_raises:
  "(ToString rt v = Inl TypeError) = (\<not> convertible v)"
  "(join_elements rt xs = Inl TypeError) = (\<not> list_all convertible xs)"
proof (induction rt v and rt xs rule: ToString_join_elements.induct)
  case (5 rt xs)
  then show ?case
    by (cases "join_elements rt xs") (simp_all add: error_is_TypeError)
next
  case (8 rt x xs)
  show ?case
  proof (cases "x = JNull")
    case True
    then show ?thesis using 8(2)[of "[]"]
      by (cases "join_elements rt xs") (simp_all add: error_is_TypeError)
  next
    case False
    show ?thesis
    proof (cases "ToString rt x")
      case (Inl e)
      then show ?thesis using False 8(1) by (simp add: error_is_TypeError)
    next
      case (Inr s)
      then show ?thesis using False 8(1) 8(2)[of s]
        by (cases "join_elements rt xs") (simp_all add: error_is_TypeError)
    qed
  qed
qed simp_all

lemma ToNumber_raises: "(ToNumber rt v = Inl TypeError) = (\<not> convertible v)"
proof (cases v)
  case (JArr xs)
  then show ?thesis using ToString_raises(1)[of rt "JArr xs"]
    by (cases "ToString rt (JArr xs)")
       (simp_all add: error_is_TypeError del: ToString.simps)
next
  case (JObj kvs)
  then show ?thesis by simp
qed simp_all

lemma score_raises:
  "((case getProp raw ''score'' of
       Some (JNum n) \<Rightarrow> Inr n
     | _ \<Rightarrow> ToNumber rt (coalesce (getProp raw ''score'') (JNum (Finite 0)))) = Inl TypeError)
   = (\<not> convertible (coalesce (getProp raw ''score'') (JNum (Finite 0))))"
proof (cases "getProp raw ''score''")
  case None
  then show ?thesis by simp
next
  case (Some v)
  then show ?thesis using ToNumber_raises[of rt v] ToNumber_raises[of rt JNull]
    by (cases v) simp_all
qed

lemma toSearchResult_raises: "(toSearchResult rt raw = Inl TypeError) = (\<not> coercible raw)"
proof -
  let ?S = "case getProp raw ''score'' of
       Some (JNum n) \<Rightarrow> Inr n
     | _ \<Rightarrow> ToNumber rt (coalesce (getProp raw ''score'') (JNum (Finite 0)))"
  let ?I = "ToString rt (coalesce (getProp raw ''id'')
              (coalesce (getProp raw ''chunk_id'') (JStr [])))"
  have "(toSearchResult rt raw = Inl TypeError) = (?S = Inl TypeError \<or> ?I = Inl TypeError)"
    unfolding toSearchResult_def Let_def
    by (cases ?S; cases ?I) (simp_all add: error_is_TypeError)
  then show ?thesis
    using score_raises ToString_raises(1)
    by (simp add: coercible_def)
qed

lemma toSearchResult_returns: "coercible raw \<Longrightarrow> \<exists>r. toSearchResult rt raw = Inr r"
  using toSearchResult_raises[of rt raw]
  by (cases "toSearchResult rt raw") (simp_all add: error_is_TypeError)

lemma mapSearchResults_loop_Inr:
  "(mapSearchResults_loop rt xs = Inr rs) = (map Inr rs = map (toSearchResult rt) (records xs))"
proof (induction xs arbitrary: rs rule: records.induct)
  case 1
  then show ?case by auto
next
  case (2 raw rest)
  show ?case
  proof (cases "toSearchResult rt raw")
    case (Inl e)
    then show ?thesis by (cases rs) auto
  next
    case (Inr r)
    show ?thesis
    proof (cases "mapSearchResults_loop rt rest")
      case (Inl e)
      then show ?thesis using Inr 2[of "tl rs"] by (cases rs) auto
    next
      case (Inr rest')
      then show ?thesis using \<open>toSearchResult rt raw = Inr r\<close> 2[of "tl rs"] 2[of rest']
        by (cases rs) auto
    qed
  qed
qed simp_all

lemma mapSearchResults_loop_raises:
  "(mapSearchResults_loop rt xs = Inl TypeError) = (\<not> list_all coercible (records xs))"
proof (induction xs rule: records.induct)
  case (2 raw rest)
  then show ?case using toSearchResult_raises[of rt raw]
    by (auto split: sum.splits simp: error_is_TypeError)
qed simp_all

lemma mapSearchResults_loop_returns:
  "list_all coercible (records xs) \<Longrightarrow> \<exists>rs. mapSearchResults_loop rt xs = Inr rs"
  using mapSearchResults_loop_raises[of rt xs]
  by (cases "mapSearchResults_loop rt xs") (simp_all add: error_is_TypeError)

lemma extractChatSources_chosen:
  "extractChatSources rt payload = mapSearchResults_loop rt (chosen_sources payload)"
proof (cases "getProp payload ''ragora_stats''")
  case None
  then show ?thesis
    by (simp add: extractChatSources_def chosen_sources_def
          split: option.splits json.splits)
next
  case (Some stats)
  have top: "mapSearchResults rt (getProp payload ''sources'')
      = mapSearchResults_loop rt
          (case getProp payload ''sources'' of Some (JArr xs) \<Rightarrow> xs | _ \<Rightarrow> [])"
    by (simp split: option.splits json.splits)
  show ?thesis
  proof (cases stats)
    case (JObj kvs)
    then show ?thesis using Some top
      by (simp add: extractChatSources_def chosen_sources_def
            split: option.splits json.splits)
  qed (use Some top in \<open>simp_all add: extractChatSources_def chosen_sources_def\<close>)
qed

section \<open>The interpreter on parsed payloads\<close>

lemma parsed_object_frame:
  assumes "conforming rt" and "JSON_parse rt (join (js [CHR 0x0A]) ds) = Some (JObj payload)"
  shows "ds \<noteq> [] \<and> join (js [CHR 0x0A]) ds \<noteq> js ''[DONE]''"
  using assms by (auto simp: conforming_def)

text \<open>
  C4, as amended. Metadata events: on a frame named \<^verbatim>\<open>ragora_metadata\<close> or
  \<^verbatim>\<open>ragora_complete\<close> whose payload parses as a record, the sources are coerced from
  \<^verbatim>\<open>ragora_stats.sources\<close> when that is a list and from the top-level \<^verbatim>\<open>sources\<close>
  otherwise, one result for each record of the list. The coercion returns when no record
  of the list has a score or an identifier on which the conversion raises; then a list
  that is not empty gives the one chunk with empty content, no finish reason and these
  sources, and an empty list gives nothing. When the coercion raises, the exception is
  caught and the interpreter gives nothing.
\<close>

theorem metadata_event:
  assumes "conforming rt"
    and "ev = js ''ragora_metadata'' \<or> ev = js ''ragora_complete''"
    and "JSON_parse rt (join (js [CHR 0x0A]) ds) = Some (JObj payload)"
  shows "extractChatSources rt payload = mapSearchResults_loop rt (chosen_sources payload)
         \<and> (list_all coercible (records (chosen_sources payload)) \<longrightarrow>
              (\<exists>srcs. extractChatSources rt payload = Inr srcs))
         \<and> (\<forall>srcs. extractChatSources rt payload = Inr srcs \<longrightarrow>
              map Inr srcs = map (toSearchResult rt) (records (chosen_sources payload)))
         \<and> (\<forall>srcs. extractChatSources rt payload = Inr srcs \<and> srcs \<noteq> [] \<longrightarrow>
              parseEvent rt ev ds =
                \<lparr> chunk = Some \<lparr> content = [], finishReason = None, sources = srcs \<rparr>,
                  done' = False \<rparr>)
         \<and> (extractChatSources rt payload = Inr [] \<longrightarrow> parseEvent rt ev ds = nothing)
         \<and> (\<not> list_all coercible (records (chosen_sources payload)) \<longrightarrow>
              extractChatSources rt payload = Inl TypeError \<and> parseEvent rt ev ds = nothing)"
proof -
  have fr: "ds \<noteq> []" "join (js [CHR 0x0A]) ds \<noteq> js ''[DONE]''"
    using parsed_object_frame[OF assms(1,3)] by simp_all
  have ev: "parseEvent rt ev ds =
      (case extractChatSources rt payload of
         Inl e \<Rightarrow> nothing
       | Inr srcs \<Rightarrow>
           if srcs = [] then nothing
           else \<lparr> chunk = Some \<lparr> content = [], finishReason = None, sources = srcs \<rparr>,
                  done' = False \<rparr>)"
    using fr assms(2,3) by (auto simp: parseEvent_def Let_def)
  have a: "extractChatSources rt payload = mapSearchResults_loop rt (chosen_sources payload)"
    by (rule extractChatSources_chosen)
  have b: "\<exists>srcs. extractChatSources rt payload = Inr srcs"
    if "list_all coercible (records (chosen_sources payload))"
    using that a mapSearchResults_loop_returns[of "chosen_sources payload" rt] by simp
  have c: "map Inr srcs = map (toSearchResult rt) (records (chosen_sources payload))"
    if "extractChatSources rt payload = Inr srcs" for srcs
    using that a mapSearchResults_loop_Inr[of rt "chosen_sources payload" srcs] by simp
  have d: "extractChatSources rt payload = Inl TypeError"
    if "\<not> list_all coercible (records (chosen_sources payload))"
    using that a mapSearchResults_loop_raises[of rt "chosen_sources payload"] by simp
  show ?thesis using a b c d ev by simp
qed

text \<open>
  The metadata frame of the specification's examples, and a frame whose only source has
  a record with a key \<^verbatim>\<open>toString\<close> for identifier.
\<close>

theorem metadata_event_witness:
  \<open>conforming sample_runtime
   \<and> JSON_parse sample_runtime
         (join (js [CHR 0x0A]) [js ''{"sources":[{"id":"a","content":"x","score":0.9}]}''])
       = Some (JObj [(js ''sources'',
                 JArr [JObj [(js ''id'', JStr (js ''a'')), (js ''content'', JStr (js ''x'')),
                             (js ''score'', JNum (Finite (9 / 10)))]])])
   \<and> list_all coercible
        (records (chosen_sources [(js ''sources'',
                 JArr [JObj [(js ''id'', JStr (js ''a'')), (js ''content'', JStr (js ''x'')),
                             (js ''score'', JNum (Finite (9 / 10)))]])]))
   \<and> parseEvent sample_runtime (js ''ragora_metadata'')
         [js ''{"sources":[{"id":"a","content":"x","score":0.9}]}'']
       = \<lparr> chunk = Some \<lparr> content = [], finishReason = None,
             sources = [\<lparr> id' = js ''a'', content' = js ''x'', score = Finite (9 / 10),
                          metadata = [], documentId = None, collectionId = None \<rparr>] \<rparr>,
           done' = False \<rparr>
   \<and> \<not> list_all coercible
        (records (chosen_sources
           [(js ''sources'',
             JArr [JObj [(js ''id'', JObj [(js ''toString'', JNum (Finite 1))])]])]))
   \<and> parseEvent sample_runtime (js ''ragora_complete'')
         [js ''{"sources":[{"id":{"toString":1}}]}''] = nothing\<close>
proof -
  have runtime: \<open>conforming sample_runtime\<close>
    by (simp add: conforming_def eval_defs)
  have named: \<open>js ''ragora_metadata'' = js ''ragora_metadata''
      \<or> js ''ragora_metadata'' = js ''ragora_complete''\<close>
    by simp
  have parsed: \<open>JSON_parse sample_runtime
         (join (js [CHR 0x0A]) [js ''{"sources":[{"id":"a","content":"x","score":0.9}]}''])
       = Some (JObj [(js ''sources'',
                 JArr [JObj [(js ''id'', JStr (js ''a'')), (js ''content'', JStr (js ''x'')),
                             (js ''score'', JNum (Finite (9 / 10)))]])])\<close>
    by (simp add: eval_defs)
  have evaluated: ?thesis
    by (simp add: conforming_def chosen_sources_def coercible_def eval_defs)
  then show ?thesis
    using metadata_event[OF runtime named parsed] by - assumption
qed

text \<open>
  C4 as it is worded fails on \<^verbatim>\<open>{"sources":[{"id":{"toString":1}}]}\<close>: the payload is a
  record and the list of sources holds one record, yet no list is extracted and no chunk
  is given.
\<close>

theorem metadata_raise_counterexample:
  \<open>JSON_parse sample_runtime (js ''{"sources":[{"id":{"toString":1}}]}'')
     = Some (JObj [(js ''sources'',
               JArr [JObj [(js ''id'', JObj [(js ''toString'', JNum (Finite 1))])]])])
   \<and> records (chosen_sources
        [(js ''sources'',
          JArr [JObj [(js ''id'', JObj [(js ''toString'', JNum (Finite 1))])]])])
       = [[(js ''id'', JObj [(js ''toString'', JNum (Finite 1))])]]
   \<and> extractChatSources sample_runtime
        [(js ''sources'',
          JArr [JObj [(js ''id'', JObj [(js ''toString'', JNum (Finite 1))])]])]
       = Inl TypeError
   \<and> parseEvent sample_runtime (js ''ragora_metadata'')
        [js ''{"sources":[{"id":{"toString":1}}]}''] = nothing\<close>
  by (simp add: chosen_sources_def eval_defs)

lemma content_path:
  "(case getProp
           (case getProp
                   (case (case getProp parsed ''choices'' of Some (JArr cs) \<Rightarrow> cs | _ \<Rightarrow> []) of
                      JObj c # _ \<Rightarrow> c | _ \<Rightarrow> [])
                   ''delta'' of Some (JObj d) \<Rightarrow> d | _ \<Rightarrow> [])
           ''content'' of Some (JStr s) \<Rightarrow> s | _ \<Rightarrow> [])
   = (case at_path (Some (JObj parsed))
             [Key ''choices'', Index 0, Key ''delta'', Key ''content''] of
        Some (JStr s) \<Rightarrow> s | _ \<Rightarrow> [])"
proof -
  have empty: "getProp [] k = None" for k by (simp add: getProp_def)
  show ?thesis
  proof (cases "getProp parsed ''choices''")
    case None
    then show ?thesis by (simp add: empty)
  next
    case (Some v)
    show ?thesis
    proof (cases v)
      case (JArr cs)
      show ?thesis
      proof (cases cs)
        case Nil
        then show ?thesis using Some JArr by (simp add: empty)
      next
        case (Cons c rest)
        show ?thesis
        proof (cases c)
          case (JObj kvs)
          show ?thesis
          proof (cases "getProp kvs ''delta''")
            case None
            then show ?thesis using Some JArr Cons JObj by (simp add: empty)
          next
            case (Some dv)
            then show ?thesis using \<open>getProp parsed ''choices'' = Some v\<close> JArr Cons JObj
              by (cases dv) (simp_all add: empty)
          qed
        qed (use Some JArr Cons in \<open>simp_all add: empty\<close>)
      qed
    qed (use Some in \<open>simp_all add: empty\<close>)
  qed
qed

lemma finish_reason_path:
  "string_or_undefined
     (getProp (case (case getProp parsed ''choices'' of Some (JArr cs) \<Rightarrow> cs | _ \<Rightarrow> []) of
                 JObj c # _ \<Rightarrow> c | _ \<Rightarrow> [])
        ''finish_reason'')
   = string_or_undefined
       (at_path (Some (JObj parsed)) [Key ''choices'', Index 0, Key ''finish_reason''])"
proof -
  have empty: "getProp [] k = None" for k by (simp add: getProp_def)
  show ?thesis
  proof (cases "getProp parsed ''choices''")
    case None
    then show ?thesis by (simp add: empty)
  next
    case (Some v)
    show ?thesis
    proof (cases v)
      case (JArr cs)
      show ?thesis
      proof (cases cs)
        case Nil
        then show ?thesis using Some JArr by (simp add: empty)
      next
        case (Cons c rest)
        then show ?thesis using Some JArr by (cases c) (simp_all add: empty)
      qed
    qed (use Some in \<open>simp_all add: empty\<close>)
  qed
qed

text \<open>
  C5, as amended. Default events: on a frame with any other event name whose payload
  parses as a record, the content is \<^verbatim>\<open>choices[0].delta.content\<close> (empty when absent or
  not a string) and the finish reason is \<^verbatim>\<open>choices[0].finish_reason\<close> (absent when absent
  or not a string). The coercion of the sources returns when no record of their list has a
  score or an identifier on which the conversion raises; then the interpreter gives
  nothing exactly when the content is empty, the finish reason is absent or the empty
  string, and there are no sources, and otherwise it gives the one chunk of these three.
  When the coercion raises, the exception is caught and the interpreter gives nothing.
\<close>

theorem default_event:
  assumes "conforming rt"
    and "ev \<noteq> js ''ragora_metadata''" and "ev \<noteq> js ''ragora_complete''"
    and "JSON_parse rt (join (js [CHR 0x0A]) ds) = Some (JObj payload)"
  shows "(list_all coercible (records (chosen_sources payload)) \<longrightarrow>
            (\<exists>srcs. extractChatSources rt payload = Inr srcs))
     \<and> (\<forall>srcs. extractChatSources rt payload = Inr srcs \<longrightarrow>
          parseEvent rt ev ds =
           (let c = (case at_path (Some (JObj payload))
                            [Key ''choices'', Index 0, Key ''delta'', Key ''content''] of
                       Some (JStr s) \<Rightarrow> s | _ \<Rightarrow> []);
                fr = string_or_undefined
                       (at_path (Some (JObj payload))
                          [Key ''choices'', Index 0, Key ''finish_reason''])
            in if c = [] \<and> (fr = None \<or> fr = Some []) \<and> srcs = [] then nothing
               else \<lparr> chunk = Some \<lparr> content = c, finishReason = fr, sources = srcs \<rparr>,
                      done' = False \<rparr>))
     \<and> (\<not> list_all coercible (records (chosen_sources payload)) \<longrightarrow>
          extractChatSources rt payload = Inl TypeError \<and> parseEvent rt ev ds = nothing)"
proof -
  have fr: "ds \<noteq> []" "join (js [CHR 0x0A]) ds \<noteq> js ''[DONE]''"
    using parsed_object_frame[OF assms(1,4)] by simp_all
  have ev: "parseEvent rt ev ds =
     (case extractChatSources rt payload of
        Inl e \<Rightarrow> nothing
      | Inr srcs \<Rightarrow>
          (let c = (case at_path (Some (JObj payload))
                            [Key ''choices'', Index 0, Key ''delta'', Key ''content''] of
                       Some (JStr s) \<Rightarrow> s | _ \<Rightarrow> []);
               fr = string_or_undefined
                       (at_path (Some (JObj payload))
                          [Key ''choices'', Index 0, Key ''finish_reason''])
           in if c = [] \<and> (fr = None \<or> fr = Some []) \<and> srcs = [] then nothing
              else \<lparr> chunk = Some \<lparr> content = c, finishReason = fr, sources = srcs \<rparr>,
                     done' = False \<rparr>))"
    unfolding parseEvent_def Let_def
    using fr assms(2,3,4)
    by (simp only: if_False option.case json.case content_path finish_reason_path
          simp_thms)
  have a: "extractChatSources rt payload = mapSearchResults_loop rt (chosen_sources payload)"
    by (rule extractChatSources_chosen)
  have b: "\<exists>srcs. extractChatSources rt payload = Inr srcs"
    if "list_all coercible (records (chosen_sources payload))"
    using that a mapSearchResults_loop_returns[of "chosen_sources payload" rt] by simp
  have d: "extractChatSources rt payload = Inl TypeError"
    if "\<not> list_all coercible (records (chosen_sources payload))"
    using that a mapSearchResults_loop_raises[of rt "chosen_sources payload"] by simp
  show ?thesis using b d ev by simp
qed

text \<open>
  The content frame of the specification's examples, and the same content beside a source
  whose score is a record with a key \<^verbatim>\<open>toString\<close>.
\<close>

theorem default_event_witness:
  \<open>conforming sample_runtime
   \<and> js ''message'' \<noteq> js ''ragora_metadata'' \<and> js ''message'' \<noteq> js ''ragora_complete''
   \<and> JSON_parse sample_runtime
         (join (js [CHR 0x0A]) [js ''{"choices":[{"delta":{"content":"Hi"}}]}''])
       = Some (JObj [(js ''choices'',
                 JArr [JObj [(js ''delta'', JObj [(js ''content'', JStr (js ''Hi''))])]])])
   \<and> list_all coercible
        (records (chosen_sources [(js ''choices'',
                 JArr [JObj [(js ''delta'', JObj [(js ''content'', JStr (js ''Hi''))])]])]))
   \<and> parseEvent sample_runtime (js ''message'') [js ''{"choices":[{"delta":{"content":"Hi"}}]}'']
       = \<lparr> chunk = Some \<lparr> content = js ''Hi'', finishReason = None, sources = [] \<rparr>,
           done' = False \<rparr>
   \<and> \<not> list_all coercible
        (records (chosen_sources
           [(js ''choices'',
             JArr [JObj [(js ''delta'', JObj [(js ''content'', JStr (js ''Hi''))])]]),
            (js ''sources'',
             JArr [JObj [(js ''score'', JObj [(js ''toString'', JNum (Finite 1))])]])]))
   \<and> parseEvent sample_runtime (js ''message'')
        [js ''{"choices":[{"delta":{"content":"Hi"}}],"sources":[{"score":{"toString":1}}]}'']
       = nothing\<close>
proof -
  have runtime: \<open>conforming sample_runtime\<close>
    by (simp add: conforming_def eval_defs)
  have other: \<open>js ''message'' \<noteq> js ''ragora_metadata''\<close>
    \<open>js ''message'' \<noteq> js ''ragora_complete''\<close>
    by (simp_all add: js_def)
  have parsed: \<open>JSON_parse sample_runtime
         (join (js [CHR 0x0A]) [js ''{"choices":[{"delta":{"content":"Hi"}}]}''])
       = Some (JObj [(js ''choices'',
                 JArr [JObj [(js ''delta'', JObj [(js ''content'', JStr (js ''Hi''))])]])])\<close>
    by (simp add: eval_defs)
  have evaluated: ?thesis
    by (simp add: conforming_def chosen_sources_def coercible_def eval_defs)
  then show ?thesis
    using default_event[OF runtime other parsed] by - assumption
qed

text \<open>
  C5 as it is worded fails on \<^verbatim>\<open>{"choices":[{"finish_reason":""}]}\<close>: the finish reason
  is there, as the empty string, and no chunk is given, because the test is
  \<^verbatim>\<open>!finishReason\<close>. It also fails where the coercion of a source raises: the content
  is \<^verbatim>\<open>Hi\<close> and no chunk is given.
\<close>

theorem default_event_counterexample:
  \<open>\<not> (chunk (parseEvent sample_runtime (js ''message'')
                [js ''{"choices":[{"finish_reason":""}]}'']) = None
        \<longleftrightarrow>
          (case at_path (JSON_parse sample_runtime (js ''{"choices":[{"finish_reason":""}]}''))
                  [Key ''choices'', Index 0, Key ''delta'', Key ''content''] of
             Some (JStr s) \<Rightarrow> s | _ \<Rightarrow> []) = []
          \<and> string_or_undefined
                (at_path (JSON_parse sample_runtime (js ''{"choices":[{"finish_reason":""}]}''))
                   [Key ''choices'', Index 0, Key ''finish_reason'']) = None
          \<and> chosen_sources [(js ''choices'', JArr [JObj [(js ''finish_reason'', JStr [])]])]
              = [])
   \<and> (case at_path
             (JSON_parse sample_runtime
                (js ''{"choices":[{"delta":{"content":"Hi"}}],"sources":[{"score":{"toString":1}}]}''))
             [Key ''choices'', Index 0, Key ''delta'', Key ''content''] of
         Some (JStr s) \<Rightarrow> s | _ \<Rightarrow> []) = js ''Hi''
   \<and> js ''Hi'' \<noteq> []
   \<and> chunk (parseEvent sample_runtime (js ''message'')
        [js ''{"choices":[{"delta":{"content":"Hi"}}],"sources":[{"score":{"toString":1}}]}''])
       = None\<close>
  by (simp add: chosen_sources_def eval_defs)

section \<open>Properties of the coercion\<close>

text \<open>
  C6, as amended. For every record whose score and identifier convert without an
  exception, the coercion returns a result. The score of a result is a finite number, and
  it is 0 when the field is absent or does not convert to a finite number; its content is
  the \<^verbatim>\<open>text\<close> field when that is a string, else the \<^verbatim>\<open>content\<close> field when that is a
  string, else empty; its metadata is the field when it is a record and empty otherwise;
  its identifier is a string by its type. For every list whose records all convert so,
  the list coercion returns, and what it returns are the results of the records of the
  list, in order, the other entries being passed over.
\<close>

theorem toSearchResult_coercion:
  "(coercible raw \<longrightarrow> (\<exists>r. toSearchResult rt raw = Inr r))
   \<and> (\<forall>r. toSearchResult rt raw = Inr r \<longrightarrow>
        isFinite (score r)
        \<and> (nullish (getProp raw ''score'') \<longrightarrow> score r = Finite 0)
        \<and> (\<forall>v n. getProp raw ''score'' = Some v \<and> ToNumber rt v = Inr n \<and> \<not> isFinite n
               \<longrightarrow> score r = Finite 0)
        \<and> (\<forall>v q. getProp raw ''score'' = Some v \<and> ToNumber rt v = Inr (Finite q)
               \<longrightarrow> score r = Finite q)
        \<and> (\<forall>t. getProp raw ''text'' = Some (JStr t) \<longrightarrow> content' r = t)
        \<and> (\<forall>c. string_or_undefined (getProp raw ''text'') = None
                 \<and> getProp raw ''content'' = Some (JStr c)
               \<longrightarrow> content' r = c)
        \<and> (string_or_undefined (getProp raw ''text'') = None
             \<and> string_or_undefined (getProp raw ''content'') = None
               \<longrightarrow> content' r = [])
        \<and> (\<forall>m. getProp raw ''metadata'' = Some (JObj m) \<longrightarrow> metadata r = m)
        \<and> ((\<forall>m. getProp raw ''metadata'' \<noteq> Some (JObj m)) \<longrightarrow> metadata r = []))
   \<and> (list_all coercible (records xs) \<longrightarrow>
        (\<exists>rs. mapSearchResults rt (Some (JArr xs)) = Inr rs))
   \<and> (\<forall>rs. mapSearchResults rt (Some (JArr xs)) = Inr rs \<longrightarrow>
        map Inr rs = map (toSearchResult rt) (records xs))"
proof -
  have ret: "\<exists>r. toSearchResult rt raw = Inr r" if "coercible raw"
    using that by (rule toSearchResult_returns)
  have props: "isFinite (score r)
        \<and> (nullish (getProp raw ''score'') \<longrightarrow> score r = Finite 0)
        \<and> (\<forall>v n. getProp raw ''score'' = Some v \<and> ToNumber rt v = Inr n \<and> \<not> isFinite n
               \<longrightarrow> score r = Finite 0)
        \<and> (\<forall>v q. getProp raw ''score'' = Some v \<and> ToNumber rt v = Inr (Finite q)
               \<longrightarrow> score r = Finite q)
        \<and> (\<forall>t. getProp raw ''text'' = Some (JStr t) \<longrightarrow> content' r = t)
        \<and> (\<forall>c. string_or_undefined (getProp raw ''text'') = None
                 \<and> getProp raw ''content'' = Some (JStr c)
               \<longrightarrow> content' r = c)
        \<and> (string_or_undefined (getProp raw ''text'') = None
             \<and> string_or_undefined (getProp raw ''content'') = None
               \<longrightarrow> content' r = [])
        \<and> (\<forall>m. getProp raw ''metadata'' = Some (JObj m) \<longrightarrow> metadata r = m)
        \<and> ((\<forall>m. getProp raw ''metadata'' \<noteq> Some (JObj m)) \<longrightarrow> metadata r = [])"
    if res: "toSearchResult rt raw = Inr r" for r
  proof -
    let ?S = "case getProp raw ''score'' of
         Some (JNum n) \<Rightarrow> Inr n
       | _ \<Rightarrow> ToNumber rt (coalesce (getProp raw ''score'') (JNum (Finite 0)))"
    let ?I = "ToString rt (coalesce (getProp raw ''id'')
                (coalesce (getProp raw ''chunk_id'') (JStr [])))"
    obtain p ident where sc: "?S = Inr p" and idt: "?I = Inr ident"
      using res unfolding toSearchResult_def Let_def
      by (cases ?S; cases ?I) simp_all
    have r: "r = \<lparr> id' = ident,
                   content' =
                     (case string_or_undefined (getProp raw ''text'') of
                        Some s \<Rightarrow> s
                      | None \<Rightarrow>
                          (case getProp raw ''content'' of
                             Some (JStr s) \<Rightarrow> s | _ \<Rightarrow> [])),
                   score = (if isFinite p then p else Finite 0),
                   metadata = (case getProp raw ''metadata'' of Some (JObj m) \<Rightarrow> m | _ \<Rightarrow> []),
                   documentId = string_or_undefined (getProp raw ''document_id''),
                   collectionId = string_or_undefined (getProp raw ''collection_id'') \<rparr>"
      using res sc idt unfolding toSearchResult_def Let_def by simp
    have s1: "isFinite (score r)" using r by simp
    have s2: "score r = Finite 0" if "nullish (getProp raw ''score'')"
      using that sc r
      by (cases "getProp raw ''score''" rule: nullish.cases) auto
    have pn: "p = n" if "getProp raw ''score'' = Some v" "ToNumber rt v = Inr n" for v n
    proof -
      have "?S = Inr n" using that by (cases v) simp_all
      then show ?thesis using sc by simp
    qed
    have s3: "score r = Finite 0"
      if "getProp raw ''score'' = Some v" "ToNumber rt v = Inr n" "\<not> isFinite n" for v n
      using pn[OF that(1,2)] that(3) r by simp
    have s4: "score r = Finite q"
      if "getProp raw ''score'' = Some v" "ToNumber rt v = Inr (Finite q)" for v q
      using pn[OF that] r by simp
    have c1: "content' r = t" if "getProp raw ''text'' = Some (JStr t)" for t
      using that r by simp
    have c2: "content' r = c"
      if "string_or_undefined (getProp raw ''text'') = None"
         "getProp raw ''content'' = Some (JStr c)" for c
      using that r by simp
    have c3: "content' r = []"
      if "string_or_undefined (getProp raw ''text'') = None"
         "string_or_undefined (getProp raw ''content'') = None"
      using that r
      by (cases "getProp raw ''content''" rule: string_or_undefined.cases) simp_all
    have m1: "metadata r = m" if "getProp raw ''metadata'' = Some (JObj m)" for m
      using that r by simp
    have m2: "metadata r = []" if "\<forall>m. getProp raw ''metadata'' \<noteq> Some (JObj m)"
      using that r by (auto split: option.splits json.splits)
    show ?thesis using s1 s2 s3 s4 c1 c2 c3 m1 m2 by blast
  qed
  have l1: "\<exists>rs. mapSearchResults rt (Some (JArr xs)) = Inr rs"
    if "list_all coercible (records xs)"
    using that mapSearchResults_loop_returns[of xs rt] by simp
  have l2: "map Inr rs = map (toSearchResult rt) (records xs)"
    if "mapSearchResults rt (Some (JArr xs)) = Inr rs" for rs
    using that mapSearchResults_loop_Inr[of rt xs rs] by simp
  show ?thesis using ret props l1 l2 by blast
qed

theorem toSearchResult_coercion_witness:
  \<open>coercible [(js ''text'', JStr (js ''abc'')), (js ''metadata'', JObj [(js ''k'', JNull)])]
   \<and> nullish (getProp [(js ''text'', JStr (js ''abc'')), (js ''metadata'', JObj [(js ''k'', JNull)])]
       ''score'')
   \<and> toSearchResult sample_runtime
         [(js ''text'', JStr (js ''abc'')), (js ''metadata'', JObj [(js ''k'', JNull)])]
       = Inr \<lparr> id' = [], content' = js ''abc'', score = Finite 0,
               metadata = [(js ''k'', JNull)], documentId = None, collectionId = None \<rparr>
   \<and> ToNumber sample_runtime (JStr (js ''high'')) = Inr NaN \<and> \<not> isFinite NaN
   \<and> toSearchResult sample_runtime
         [(js ''content'', JStr (js ''x'')), (js ''score'', JStr (js ''high''))]
       = Inr \<lparr> id' = [], content' = js ''x'', score = Finite 0,
               metadata = [], documentId = None, collectionId = None \<rparr>
   \<and> toSearchResult sample_runtime [(js ''score'', JStr (js ''0.5''))]
       = Inr \<lparr> id' = [], content' = [], score = Finite (1 / 2),
               metadata = [], documentId = None, collectionId = None \<rparr>
   \<and> list_all coercible
         (records [JNum (Finite 1), JObj [(js ''content'', JStr (js ''x''))], JNull])
   \<and> mapSearchResults sample_runtime
         (Some (JArr [JNum (Finite 1), JObj [(js ''content'', JStr (js ''x''))], JNull]))
       = Inr [\<lparr> id' = [], content' = js ''x'', score = Finite 0,
                metadata = [], documentId = None, collectionId = None \<rparr>]\<close>
proof -
  have evaluated: ?thesis
    by (simp add: coercible_def eval_defs)
  then show ?thesis
    using toSearchResult_coercion[of
          \<open>[(js ''text'', JStr (js ''abc'')), (js ''metadata'', JObj [(js ''k'', JNull)])]\<close>
          sample_runtime
          \<open>[JNum (Finite 1), JObj [(js ''content'', JStr (js ''x''))], JNull]\<close>]
        toSearchResult_coercion[of
          \<open>[(js ''content'', JStr (js ''x'')), (js ''score'', JStr (js ''high''))]\<close>
          sample_runtime \<open>[]\<close>]
        toSearchResult_coercion[of \<open>[(js ''score'', JStr (js ''0.5''))]\<close>
          sample_runtime \<open>[]\<close>]
    by - assumption
qed

text \<open>
  C6 as it is worded fails on \<^verbatim>\<open>{"text":"abc"}\<close>: the \<^verbatim>\<open>content\<close> field is absent and
  the content of the result is not empty. It also fails on
  \<^verbatim>\<open>{"id":"a","score":{"toString":1}}\<close>, where the coercion raises \<^verbatim>\<open>TypeError\<close> and
  there is no result, and on a list that holds a record of that kind.
\<close>

theorem toSearchResult_coercion_counterexample:
  \<open>getProp [(js ''text'', JStr (js ''abc''))] ''content'' = None
   \<and> toSearchResult sample_runtime [(js ''text'', JStr (js ''abc''))]
       = Inr \<lparr> id' = [], content' = js ''abc'', score = Finite 0,
               metadata = [], documentId = None, collectionId = None \<rparr>
   \<and> js ''abc'' \<noteq> []
   \<and> toSearchResult sample_runtime
        [(js ''id'', JStr (js ''a'')), (js ''score'', JObj [(js ''toString'', JNum (Finite 1))])]
       = Inl TypeError
   \<and> mapSearchResults sample_runtime
        (Some (JArr [JObj [(js ''id'', JStr (js ''a''))],
                     JObj [(js ''id'', JObj [(js ''toString'', JNum (Finite 1))])]]))
       = Inl TypeError\<close>
  by (simp add: eval_defs)

text \<open>
  C10, as amended. For every record whose score and identifier convert without an
  exception, the coercion returns a result, and the identifier of a result is: the string
  of \<^verbatim>\<open>id\<close> when that is present; when \<^verbatim>\<open>id\<close> is \<^verbatim>\<open>null\<close> or \<^verbatim>\<open>undefined\<close> and
  \<^verbatim>\<open>chunk_id\<close> is present, the string of \<^verbatim>\<open>chunk_id\<close>; the empty string when both are
  \<^verbatim>\<open>null\<close> or \<^verbatim>\<open>undefined\<close>.
\<close>

theorem id_fallback:
  "(coercible raw \<longrightarrow> (\<exists>r. toSearchResult rt raw = Inr r))
   \<and> (\<forall>r. toSearchResult rt raw = Inr r \<longrightarrow>
        (\<forall>v. getProp raw ''id'' = Some v \<and> v \<noteq> JNull \<longrightarrow> ToString rt v = Inr (id' r))
        \<and> (\<forall>v. nullish (getProp raw ''id'') \<and> getProp raw ''chunk_id'' = Some v \<and> v \<noteq> JNull
               \<longrightarrow> ToString rt v = Inr (id' r))
        \<and> (nullish (getProp raw ''id'') \<and> nullish (getProp raw ''chunk_id'')
               \<longrightarrow> id' r = []))"
proof -
  have ret: "\<exists>r. toSearchResult rt raw = Inr r" if "coercible raw"
    using that by (rule toSearchResult_returns)
  have idr: "ToString rt (coalesce (getProp raw ''id'')
                (coalesce (getProp raw ''chunk_id'') (JStr []))) = Inr (id' r)"
    if res: "toSearchResult rt raw = Inr r" for r
  proof -
    let ?S = "case getProp raw ''score'' of
         Some (JNum n) \<Rightarrow> Inr n
       | _ \<Rightarrow> ToNumber rt (coalesce (getProp raw ''score'') (JNum (Finite 0)))"
    let ?I = "ToString rt (coalesce (getProp raw ''id'')
                (coalesce (getProp raw ''chunk_id'') (JStr [])))"
    show ?thesis
      using res unfolding toSearchResult_def Let_def
      by (cases ?S; cases ?I) auto
  qed
  show ?thesis
    using ret idr by (auto simp: coalesce_nullish coalesce_present)
qed

theorem id_fallback_witness:
  \<open>coercible [(js ''id'', JNull), (js ''chunk_id'', JStr (js ''c1''))]
   \<and> nullish (getProp [(js ''id'', JNull), (js ''chunk_id'', JStr (js ''c1''))] ''id'')
   \<and> toSearchResult sample_runtime [(js ''id'', JNull), (js ''chunk_id'', JStr (js ''c1''))]
       = Inr \<lparr> id' = js ''c1'', content' = [], score = Finite 0,
               metadata = [], documentId = None, collectionId = None \<rparr>
   \<and> toSearchResult sample_runtime
        [(js ''id'', JNum (Finite 7)), (js ''chunk_id'', JStr (js ''c1''))]
       = Inr \<lparr> id' = js ''7'', content' = [], score = Finite 0,
               metadata = [], documentId = None, collectionId = None \<rparr>
   \<and> nullish (getProp [(js ''content'', JStr (js ''x''))] ''chunk_id'')
   \<and> toSearchResult sample_runtime [(js ''content'', JStr (js ''x''))]
       = Inr \<lparr> id' = [], content' = js ''x'', score = Finite 0,
               metadata = [], documentId = None, collectionId = None \<rparr>\<close>
proof -
  have evaluated: ?thesis
    by (simp add: coercible_def eval_defs)
  then show ?thesis
    using id_fallback[of \<open>[(js ''id'', JNull), (js ''chunk_id'', JStr (js ''c1''))]\<close>
          sample_runtime]
        id_fallback[of \<open>[(js ''id'', JNum (Finite 7)), (js ''chunk_id'', JStr (js ''c1''))]\<close>
          sample_runtime]
        id_fallback[of \<open>[(js ''content'', JStr (js ''x''))]\<close> sample_runtime]
    by - assumption
qed

text \<open>
  C10 as it is worded fails on \<^verbatim>\<open>{"chunk_id":"c1","score":{"toString":1}}\<close>: the
  \<^verbatim>\<open>id\<close> field is absent and \<^verbatim>\<open>chunk_id\<close> is present, and the coercion raises
  \<^verbatim>\<open>TypeError\<close> instead of giving a result whose identifier is \<^verbatim>\<open>c1\<close>.
\<close>

theorem id_fallback_counterexample:
  \<open>nullish (getProp [(js ''chunk_id'', JStr (js ''c1'')),
                     (js ''score'', JObj [(js ''toString'', JNum (Finite 1))])] ''id'')
   \<and> getProp [(js ''chunk_id'', JStr (js ''c1'')),
               (js ''score'', JObj [(js ''toString'', JNum (Finite 1))])] ''chunk_id''
       = Some (JStr (js ''c1''))
   \<and> toSearchResult sample_runtime
        [(js ''chunk_id'', JStr (js ''c1'')),
         (js ''score'', JObj [(js ''toString'', JNum (Finite 1))])]
       = Inl TypeError
   \<and> toSearchResult sample_runtime
        [(js ''chunk_id'', JObj [(js ''toString'', JNum (Finite 1))])]
       = Inl TypeError\<close>
  by (simp add: eval_defs)

section \<open>Frames in the line loop\<close>

lemma join_DONE_nonempty: "join (js [CHR 0x0A]) ds = js ''[DONE]'' \<Longrightarrow> ds \<noteq> []"
  by (auto simp: js_def)

lemma parseEvent_DONE:
  "join (js [CHR 0x0A]) ds = js ''[DONE]'' \<Longrightarrow>
     parseEvent rt ev ds = \<lparr> chunk = None, done' = True \<rparr>"
  using join_DONE_nonempty[of ds] by (simp add: parseEvent_def)

lemma for_lines_blank:
  "trimEnd l = [] \<Longrightarrow>
   for_lines f st (l # rest) =
     (if done' (f (eventName st) (dataLines st))
      then (yield (f (eventName st) (dataLines st)), None)
      else (case for_lines f (st \<lparr> dataLines := [], eventName := js ''message'' \<rparr>) rest of
              (ys, r) \<Rightarrow> (yield (f (eventName st) (dataLines st)) @ ys, r)))"
  by (simp add: Let_def)

text \<open>
  C2. Termination by the sentinel: a frame whose data lines joined are \<^verbatim>\<open>[DONE]\<close> gives
  no chunk and ends the stream; when a blank line completes such a frame the loop
  returns with the chunks yielded before it, whatever lines follow in the read; once
  a read has made the generator return, the later reads add nothing; and so, when the
  bytes received up to some point make the generator return, the chunks of the whole
  stream are those yielded up to there, whatever bytes follow and however the body is
  cut into reads.
\<close>

theorem done_ends_sequence:
  "(join (js [CHR 0x0A]) ds = js ''[DONE]'' \<longrightarrow>
      parseEvent rt ev ds = \<lparr> chunk = None, done' = True \<rparr>)
   \<and> (for_lines (parseEvent rt) st ls = (ys, Some st')
        \<and> join (js [CHR 0x0A]) (dataLines st') = js ''[DONE]'' \<and> trimEnd l = []
      \<longrightarrow> for_lines (parseEvent rt) st (ls @ l # later) = (ys, None))
   \<and> (on_read (parseEvent rt) st v = (ys, None)
      \<longrightarrow> chatStream_loop (parseEvent rt) st (v # later_reads) = ys)
   \<and> (on_read (parseEvent rt) initial_state received = (ys, None)
        \<and> concat reads = received @ further
      \<longrightarrow> chatStream rt reads = ys)"
proof (intro conjI impI)
  assume "join (js [CHR 0x0A]) ds = js ''[DONE]''"
  then show "parseEvent rt ev ds = \<lparr> chunk = None, done' = True \<rparr>"
    by (rule parseEvent_DONE)
next
  assume a: "for_lines (parseEvent rt) st ls = (ys, Some st')
        \<and> join (js [CHR 0x0A]) (dataLines st') = js ''[DONE]'' \<and> trimEnd l = []"
  then have d: "parseEvent rt (eventName st') (dataLines st') = \<lparr> chunk = None, done' = True \<rparr>"
    using parseEvent_DONE by blast
  have "for_lines (parseEvent rt) st' (l # later) = ([], None)"
    using a d by (simp add: for_lines_blank yield_def)
  then show "for_lines (parseEvent rt) st (ls @ l # later) = (ys, None)"
    using a by (simp add: for_lines_append)
next
  assume "on_read (parseEvent rt) st v = (ys, None)"
  then show "chatStream_loop (parseEvent rt) st (v # later_reads) = ys"
    by simp
next
  assume a: "on_read (parseEvent rt) initial_state received = (ys, None)
        \<and> concat reads = received @ further"
  have "chatStream rt reads = chatStream_loop (parseEvent rt) initial_state [concat reads]"
    unfolding chatStream_def by (rule chatStream_loop_split_invariant)
  then show "chatStream rt reads = ys"
    using a by (simp add: on_read_append)
qed

theorem done_ends_sequence_witness:
  \<open>join (js [CHR 0x0A]) [js ''[DONE]''] = js ''[DONE]''
   \<and> parseEvent sample_runtime (js ''message'') [js ''[DONE]'']
       = \<lparr> chunk = None, done' = True \<rparr>
   \<and> for_lines (parseEvent sample_runtime) initial_state [js ''data: [DONE]'']
       = ([], Some (initial_state \<lparr> dataLines := [js ''[DONE]''] \<rparr>))
   \<and> for_lines (parseEvent sample_runtime) initial_state
         ([js ''data: [DONE]''] @ []
            # [js ''data: {"choices":[{"delta":{"content":"Hi"}}]}'', []])
       = ([], None)
   \<and> on_read (parseEvent sample_runtime) initial_state
         (bytes ''data: [DONE]\<newline>\<newline>'') = ([], None)
   \<and> chatStream_loop (parseEvent sample_runtime) initial_state
         (bytes ''data: [DONE]\<newline>\<newline>''
            # [bytes ''data: {"choices":[{"delta":{"content":"Hi"}}]}\<newline>\<newline>''])
       = []
   \<and> concat [bytes ''data: [DO'', bytes ''NE]\<newline>\<newline>data: {"choices":[{"delta":{"content":"Hi"}}]}\<newline>\<newline>'']
       = bytes ''data: [DONE]\<newline>\<newline>''
           @ bytes ''data: {"choices":[{"delta":{"content":"Hi"}}]}\<newline>\<newline>''
   \<and> chatStream sample_runtime
         [bytes ''data: [DO'', bytes ''NE]\<newline>\<newline>data: {"choices":[{"delta":{"content":"Hi"}}]}\<newline>\<newline>'']
       = []\<close>
  using done_ends_sequence[of \<open>[js ''[DONE]'']\<close> sample_runtime \<open>js ''message''\<close>
      initial_state \<open>[js ''data: [DONE]'']\<close> \<open>[]\<close>
      \<open>initial_state \<lparr> dataLines := [js ''[DONE]''] \<rparr>\<close> \<open>[]\<close>
      \<open>[js ''data: {"choices":[{"delta":{"content":"Hi"}}]}'', []]\<close>
      \<open>bytes ''data: [DONE]\<newline>\<newline>''\<close>
      \<open>[bytes ''data: {"choices":[{"delta":{"content":"Hi"}}]}\<newline>\<newline>'']\<close>
      \<open>bytes ''data: [DONE]\<newline>\<newline>''\<close>
      \<open>[bytes ''data: [DO'', bytes ''NE]\<newline>\<newline>data: {"choices":[{"delta":{"content":"Hi"}}]}\<newline>\<newline>'']\<close>
      \<open>bytes ''data: {"choices":[{"delta":{"content":"Hi"}}]}\<newline>\<newline>''\<close>]
  by (simp add: stream_defs eval_defs)

lemma parseEvent_malformed:
  "JSON_parse rt (join (js [CHR 0x0A]) ds) = None \<Longrightarrow> join (js [CHR 0x0A]) ds \<noteq> js ''[DONE]''
     \<Longrightarrow> parseEvent rt ev ds = nothing"
  by (simp add: parseEvent_def)

text \<open>
  C3. A malformed payload is not fatal: when the lines of a frame, read from a frame
  boundary, leave data lines that are not the sentinel and that \<^verbatim>\<open>JSON.parse\<close> rejects,
  the interpreter gives nothing for the frame, and the loop on that frame, its blank line
  and any further lines yields exactly what it yields on the further lines alone.
\<close>

theorem malformed_frame_skipped:
  assumes "eventName st = js ''message''" and "dataLines st = []"
    and "for_lines (parseEvent rt) st frame_lines = ([], Some st')"
    and "JSON_parse rt (join (js [CHR 0x0A]) (dataLines st')) = None"
    and "join (js [CHR 0x0A]) (dataLines st') \<noteq> js ''[DONE]''"
    and "trimEnd l = []"
  shows "parseEvent rt (eventName st') (dataLines st') = nothing
         \<and> for_lines (parseEvent rt) st (frame_lines @ l # rest)
             = for_lines (parseEvent rt) st rest"
proof -
  have n: "parseEvent rt (eventName st') (dataLines st') = nothing"
    using assms(4,5) by (rule parseEvent_malformed)
  have "decoder st' = decoder st \<and> buffer st' = buffer st"
    using assms(3) by (rule for_lines_keeps)
  then have restored: "st' \<lparr> dataLines := [], eventName := js ''message'' \<rparr> = st"
    using assms(1,2) by simp
  have "for_lines (parseEvent rt) st' (l # rest) = for_lines (parseEvent rt) st rest"
    using assms(6) n restored by (simp add: for_lines_blank yield_def nothing_def)
  then show ?thesis using n assms(3) by (simp add: for_lines_append)
qed

theorem malformed_frame_skipped_witness:
  \<open>for_lines (parseEvent sample_runtime) initial_state [js ''event: x'', js ''data: {oops'']
       = ([], Some (initial_state \<lparr> eventName := js ''x'', dataLines := [js ''{oops''] \<rparr>))
   \<and> JSON_parse sample_runtime (join (js [CHR 0x0A]) [js ''{oops'']) = None
   \<and> parseEvent sample_runtime (js ''x'') [js ''{oops''] = nothing
   \<and> for_lines (parseEvent sample_runtime) initial_state
         ([js ''event: x'', js ''data: {oops''] @ []
            # [js ''data: {"choices":[{"delta":{"content":"Hi"}}]}'', []])
       = for_lines (parseEvent sample_runtime) initial_state
           [js ''data: {"choices":[{"delta":{"content":"Hi"}}]}'', []]
   \<and> fst (for_lines (parseEvent sample_runtime) initial_state
           [js ''data: {"choices":[{"delta":{"content":"Hi"}}]}'', []])
       = [\<lparr> content = js ''Hi'', finishReason = None, sources = [] \<rparr>]\<close>
  using malformed_frame_skipped[of initial_state sample_runtime
      \<open>[js ''event: x'', js ''data: {oops'']\<close>
      \<open>initial_state \<lparr> eventName := js ''x'', dataLines := [js ''{oops''] \<rparr>\<close> \<open>[]\<close>
      \<open>[js ''data: {"choices":[{"delta":{"content":"Hi"}}]}'', []]\<close>]
  by (simp add: stream_defs eval_defs)

lemma trimEnd_decompose:
  "\<exists>w. s = trimEnd s @ w \<and> (\<forall>c\<in>set w. isWhiteSpace c)"
proof -
  have "rev s = takeWhile isWhiteSpace (rev s) @ dropWhile isWhiteSpace (rev s)" by simp
  then have "s = rev (dropWhile isWhiteSpace (rev s)) @ rev (takeWhile isWhiteSpace (rev s))"
    by (metis rev_append rev_rev_ident)
  moreover have "\<forall>c\<in>set (rev (takeWhile isWhiteSpace (rev s))). isWhiteSpace c"
    by (auto dest: set_takeWhileD)
  ultimately show ?thesis unfolding trimEnd_def by blast
qed

lemma trimEnd_last: "trimEnd s \<noteq> [] \<Longrightarrow> \<not> isWhiteSpace (last (trimEnd s))"
  unfolding trimEnd_def
  by (metis hd_dropWhile last_rev rev_is_Nil_conv)

lemma trimEnd_unique:
  assumes "s = p @ w" and "\<forall>c\<in>set w. isWhiteSpace c"
    and "p = [] \<or> \<not> isWhiteSpace (last p)"
  shows "trimEnd s = p"
proof -
  have "dropWhile isWhiteSpace (rev w @ rev p) = dropWhile isWhiteSpace (rev p)"
    using assms(2) by (intro dropWhile_append2) simp
  moreover have "dropWhile isWhiteSpace (rev p) = rev p"
    using assms(3) by (cases "rev p") (auto simp: last_rev[symmetric] hd_rev)
  ultimately show ?thesis using assms(1) by (simp add: trimEnd_def)
qed

text \<open>
  C7, as amended. Each complete line, and the buffered text at the end of the body, is
  classified after \<^verbatim>\<open>trimEnd\<close>: what is classified is the one prefix of the line that
  leaves only white space behind it and does not end in white space, so all trailing
  white space is removed, the carriage return, the space and the tab among it, and every
  character before it is kept, leading white space included.
\<close>

theorem line_trimming:
  "(\<exists>w. rawLine = trimEnd rawLine @ w \<and> (\<forall>c\<in>set w. isWhiteSpace c))
   \<and> (trimEnd rawLine \<noteq> [] \<longrightarrow> \<not> isWhiteSpace (last (trimEnd rawLine)))
   \<and> (\<forall>p w. rawLine = p @ w \<and> (\<forall>c\<in>set w. isWhiteSpace c)
            \<and> (p = [] \<or> \<not> isWhiteSpace (last p))
          \<longrightarrow> trimEnd rawLine = p)
   \<and> isWhiteSpace 0x0D \<and> isWhiteSpace 0x20 \<and> isWhiteSpace 0x09
   \<and> for_lines parseEv st (rawLine # rest) =
       (case classify (trimEnd rawLine) of
          Blank \<Rightarrow>
            (let parsed = parseEv (eventName st) (dataLines st)
             in if done' parsed then (yield parsed, None)
                else (case for_lines parseEv
                             (st \<lparr> dataLines := [], eventName := js ''message'' \<rparr>) rest of
                        (ys, r) \<Rightarrow> (yield parsed @ ys, r)))
        | EventLine e \<Rightarrow> for_lines parseEv (st \<lparr> eventName := e \<rparr>) rest
        | DataLine d \<Rightarrow> for_lines parseEv (st \<lparr> dataLines := dataLines st @ [d] \<rparr>) rest
        | Ignored \<Rightarrow> for_lines parseEv st rest)
   \<and> end_of_stream parseEv (st \<lparr> buffer := rawLine \<rparr>) =
       (case classify (trimEnd rawLine) of
          EventLine e \<Rightarrow> yield (parseEv e (dataLines st))
        | DataLine d \<Rightarrow> yield (parseEv (eventName st) (dataLines st @ [d]))
        | _ \<Rightarrow> yield (parseEv (eventName st) (dataLines st)))"
proof -
  have ne: "js ''event:'' \<noteq> []" "js ''data:'' \<noteq> []" by (simp_all add: js_def)
  have blank: "\<not> startsWith [] (js ''event:'')" "\<not> startsWith [] (js ''data:'')"
    using ne by (auto simp: startsWith_def)
  have loop: "for_lines parseEv st (rawLine # rest) =
       (case classify (trimEnd rawLine) of
          Blank \<Rightarrow>
            (let parsed = parseEv (eventName st) (dataLines st)
             in if done' parsed then (yield parsed, None)
                else (case for_lines parseEv
                             (st \<lparr> dataLines := [], eventName := js ''message'' \<rparr>) rest of
                        (ys, r) \<Rightarrow> (yield parsed @ ys, r)))
        | EventLine e \<Rightarrow> for_lines parseEv (st \<lparr> eventName := e \<rparr>) rest
        | DataLine d \<Rightarrow> for_lines parseEv (st \<lparr> dataLines := dataLines st @ [d] \<rparr>) rest
        | Ignored \<Rightarrow> for_lines parseEv st rest)"
    by (simp add: classify_def Let_def)
  have flush: "end_of_stream parseEv (st \<lparr> buffer := rawLine \<rparr>) =
       (case classify (trimEnd rawLine) of
          EventLine e \<Rightarrow> yield (parseEv e (dataLines st))
        | DataLine d \<Rightarrow> yield (parseEv (eventName st) (dataLines st @ [d]))
        | _ \<Rightarrow> yield (parseEv (eventName st) (dataLines st)))"
    using blank by (simp add: classify_def end_of_stream_def Let_def)
  have uniq: "\<forall>p w. rawLine = p @ w \<and> (\<forall>c\<in>set w. isWhiteSpace c)
            \<and> (p = [] \<or> \<not> isWhiteSpace (last p))
          \<longrightarrow> trimEnd rawLine = p"
    using trimEnd_unique by blast
  have ws: "isWhiteSpace 0x0D \<and> isWhiteSpace 0x20 \<and> isWhiteSpace 0x09"
    by (simp add: isWhiteSpace_def)
  show ?thesis
    using trimEnd_decompose[of rawLine] trimEnd_last[of rawLine] uniq ws loop flush
    by (intro conjI) simp_all
qed

text \<open>
  A data line followed by a space and a carriage return; a line that starts with a
  space, which is kept and so is not a data line; an event line at the end of the body.
\<close>

theorem line_trimming_witness:
  \<open>js ''data: a '' @ [0x0D] = trimEnd (js ''data: a '' @ [0x0D]) @ [0x20, 0x0D]
   \<and> isWhiteSpace 0x20 \<and> isWhiteSpace 0x0D
   \<and> trimEnd (js ''data: a '' @ [0x0D]) = js ''data: a''
   \<and> \<not> isWhiteSpace (last (trimEnd (js ''data: a '' @ [0x0D])))
   \<and> classify (trimEnd (js ''data: a '' @ [0x0D])) = DataLine (js ''a'')
   \<and> fst (for_lines (record_frame sample_runtime) initial_state
           [js ''data: a '' @ [0x0D], [0x0D]])
       = [(js ''message'', [js ''a''])]
   \<and> classify (trimEnd (js '' data: a'')) = Ignored
   \<and> fst (for_lines (record_frame sample_runtime) initial_state [js '' data: a'', []])
       = [(js ''message'', [])]
   \<and> end_of_stream (record_frame sample_runtime)
        (initial_state \<lparr> buffer := js ''event: x  '' \<rparr>) = [(js ''x'', [])]\<close>
proof -
  have evaluated: ?thesis
    by (simp add: classify_def record_frame_def stream_defs eval_defs)
  then show ?thesis
    using line_trimming[of \<open>js ''data: a '' @ [0x0D]\<close> \<open>record_frame sample_runtime\<close>
        initial_state \<open>[[0x0D]]\<close>]
      line_trimming[of \<open>js '' data: a''\<close> \<open>record_frame sample_runtime\<close>
        initial_state \<open>[[]]\<close>]
      line_trimming[of \<open>js ''event: x  ''\<close> \<open>record_frame sample_runtime\<close>
        initial_state \<open>[]\<close>]
    by - assumption
qed

text \<open>
  C7 as it is worded fails on the line \<^verbatim>\<open>data: a\<close> followed by a space: the space is
  removed although it is not a carriage return, and the data line of the frame is
  \<^verbatim>\<open>a\<close>.
\<close>

theorem trailing_space_counterexample:
  \<open>trimEnd (js ''data: a '') \<noteq> strip_trailing_cr (js ''data: a '')
   \<and> fst (for_lines (record_frame sample_runtime) initial_state [js ''data: a '', []])
       = [(js ''message'', [js ''a''])]\<close>
  by (simp add: strip_trailing_cr_def record_frame_def stream_defs eval_defs)

lemma end_of_stream_as_lines:
  "end_of_stream (parseEvent rt) st = fst (for_lines (parseEvent rt) st [buffer st, []])"
proof -
  let ?tail = "trimEnd (buffer st)"
  have blank: "trimEnd [] = []" by (simp add: trimEnd_def)
  have fresh: "yield (parseEvent rt e []) = []" "\<not> done' (parseEvent rt e [])" for e
    by (simp_all add: parseEvent_def yield_def nothing_def)
  have ne: "js ''event:'' \<noteq> []" "js ''data:'' \<noteq> []" by (simp_all add: js_def)
  show ?thesis
  proof (cases "?tail = []")
    case True
    then have "\<not> startsWith ?tail (js ''event:'')" "\<not> startsWith ?tail (js ''data:'')"
      using ne by (auto simp: startsWith_def)
    then show ?thesis using True blank fresh
      by (simp add: end_of_stream_def Let_def split: prod.splits)
  next
    case False
    then show ?thesis using blank fresh
      by (simp add: end_of_stream_def Let_def split: prod.splits)
  qed
qed


text \<open>
  C8. The flush at the end of the body: the text left in the buffer is treated as one
  closing line of the current frame, under the rules of the line loop, and the frame is
  interpreted as if a blank line followed. So the chunks of a stream are those of its
  complete lines followed by those of this closing line.
\<close>

theorem trailing_frame_flush:
  "chatStream_loop (parseEvent rt) st []
     = fst (for_lines (parseEvent rt) st [buffer st, []])
   \<and> chatStream rt reads =
       (case on_read (parseEvent rt) initial_state (concat reads) of
          (ys, None) \<Rightarrow> ys
        | (ys, Some st2) \<Rightarrow> ys @ fst (for_lines (parseEvent rt) st2 [buffer st2, []]))"
proof -
  have "chatStream rt reads = chatStream_loop (parseEvent rt) initial_state [concat reads]"
    unfolding chatStream_def by (rule chatStream_loop_split_invariant)
  then show ?thesis
    by (simp add: end_of_stream_as_lines split: prod.splits option.splits)
qed

text \<open>A body that ends inside its only frame, with no line end after the data.\<close>

theorem trailing_frame_flush_witness:
  \<open>chatStream sample_runtime
      [bytes ''event: message\<newline>data: {"choices":[{"del'',
       bytes ''ta":{"content":"Hi"}}]}'']
    = [\<lparr> content = js ''Hi'', finishReason = None, sources = [] \<rparr>]
   \<and> on_read (parseEvent sample_runtime) initial_state
        (bytes ''event: message\<newline>data: {"choices":[{"delta":{"content":"Hi"}}]}'')
      = ([], Some (initial_state
            \<lparr> decoder := \<lparr> utf8 = utf8_init, BOM_seen = True \<rparr>,
              buffer := js ''data: {"choices":[{"delta":{"content":"Hi"}}]}'' \<rparr>))\<close>
  using trailing_frame_flush[of sample_runtime initial_state
      \<open>[bytes ''event: message\<newline>data: {"choices":[{"del'',
         bytes ''ta":{"content":"Hi"}}]}'']\<close>]
  by (simp add: stream_defs eval_defs)

section \<open>The timer during streaming\<close>

text \<open>
  C9. The changelog of version 0.1.2 says that the streaming timeout resets on each
  chunk. In \<open>chatStream\<close> the deadline is the one set before the request: with a timeout
  of 30 seconds, a body whose reads resolve after 20 and after 40 seconds, never more
  than 20 seconds apart, is aborted before the second read.
\<close>

theorem fixed_deadline_aborts:
  \<open>chatStream_timed sample_runtime 30000
      [(20000, bytes ''data: {"choices":[{"delta":{"content":"Hi"}}]}\<newline>\<newline>''),
       (40000, bytes ''data: [DONE]\<newline>\<newline>'')] 40001
    = AbortError [\<lparr> content = js ''Hi'', finishReason = None, sources = [] \<rparr>]\<close>
  by (simp add: chatStream_timed_def stream_defs eval_defs)


end
